theory Spec2Isabelle
  imports Complex_Main
begin

section \<open>Messages and the two message reducers\<close>

text \<open>
  A message of \<open>langchain_core.messages\<close>: its class, its content and its optional id.
  \<open>HumanMessage(content=q)\<close> is built without an id. \<open>Remove\<close> is the class
  \<open>RemoveMessage\<close>, which the reducer \<open>add_messages\<close> treats as a deletion request.
\<close>

datatype msg_type = Human | AI | System | Tool | Remove

record message =
  mtype :: msg_type
  content :: string
  mid :: "string option"

definition HumanMessage :: "string \<Rightarrow> message" where
  "HumanMessage c = \<lparr>mtype = Human, content = c, mid = None\<rparr>"

text \<open>Exceptions of the program, as values.\<close>

datatype error =
    KeyError string
  | ValueError string
  | CancelledError
  | GraphRecursionError
  | ExternalError string

text \<open>
  The reducer of the simple graph's \<open>State.messages\<close> is \<open>operator.add\<close>: on two lists,
  Python's \<open>+\<close>.
\<close>

definition add :: "'a list \<Rightarrow> 'a list \<Rightarrow> 'a list" where
  "add left right = left @ right"

text \<open>
  The reducer of the deep graph's \<open>State.messages\<close> is \<open>add_messages\<close>, imported from
  \<open>langgraph.graph.message\<close>. It gives every message without an id a fresh \<open>uuid4\<close>
  (first those of \<open>left\<close>, then those of \<open>right\<close>), and then merges by id: a message of
  \<open>right\<close> whose id is already in the merged list replaces the message at that index
  (or, for a \<open>RemoveMessage\<close>, marks the id for deletion), any other message is appended
  (a \<open>RemoveMessage\<close> with an unknown id raises \<open>ValueError\<close>). A \<open>RemoveMessage\<close> with
  the id \<open>__remove_all__\<close> discards everything up to and including itself.
  The source of fresh ids is a stream \<open>uuid4 :: nat \<Rightarrow> string\<close> read at a counter.
\<close>

definition REMOVE_ALL_MESSAGES :: string where
  "REMOVE_ALL_MESSAGES = ''__remove_all__''"

fun assign_ids :: "(nat \<Rightarrow> string) \<Rightarrow> nat \<Rightarrow> message list \<Rightarrow> message list \<times> nat" where
  "assign_ids uuid4 n [] = ([], n)"
| "assign_ids uuid4 n (m # ms) =
     (case mid m of
        None \<Rightarrow> (case assign_ids uuid4 (Suc n) ms of
                   (ms', n') \<Rightarrow> (m\<lparr>mid := Some (uuid4 n)\<rparr> # ms', n'))
      | Some i \<Rightarrow> (case assign_ids uuid4 n ms of (ms', n') \<Rightarrow> (m # ms', n')))"

definition is_remove_all :: "message \<Rightarrow> bool" where
  "is_remove_all m \<longleftrightarrow> mtype m = Remove \<and> mid m = Some REMOVE_ALL_MESSAGES"

text \<open>
  \<open>after_remove_all right\<close> is \<open>Some (right[remove_all_idx + 1:])\<close> for the last index
  \<open>remove_all_idx\<close> holding a remove-all request, and \<open>None\<close> when there is none.
\<close>

fun after_remove_all :: "message list \<Rightarrow> message list option" where
  "after_remove_all [] = None"
| "after_remove_all (m # ms) =
     (case after_remove_all ms of
        Some rest \<Rightarrow> Some rest
      | None \<Rightarrow> if is_remove_all m then Some ms else None)"

text \<open>\<open>merged_by_id = {m.id: i for i, m in enumerate(merged)}\<close>: a later index wins.\<close>

fun index_by_id :: "nat \<Rightarrow> message list \<Rightarrow> (string option \<rightharpoonup> nat) \<Rightarrow> (string option \<rightharpoonup> nat)" where
  "index_by_id i [] d = d"
| "index_by_id i (m # ms) d = index_by_id (Suc i) ms (d(mid m \<mapsto> i))"

text \<open>The merge loop \<open>for m in right\<close>, on \<open>merged\<close>, \<open>merged_by_id\<close> and \<open>ids_to_remove\<close>.\<close>

fun merge_loop ::
  "message list \<Rightarrow> (string option \<rightharpoonup> nat) \<Rightarrow> string option set \<Rightarrow> message list
     \<Rightarrow> error + (message list \<times> string option set)" where
  "merge_loop merged merged_by_id ids_to_remove [] = Inr (merged, ids_to_remove)"
| "merge_loop merged merged_by_id ids_to_remove (m # right) =
     (case merged_by_id (mid m) of
        Some existing_idx \<Rightarrow>
          if mtype m = Remove
          then merge_loop merged merged_by_id (insert (mid m) ids_to_remove) right
          else merge_loop (merged[existing_idx := m]) merged_by_id
                 (ids_to_remove - {mid m}) right
      | None \<Rightarrow>
          if mtype m = Remove
          then Inl (ValueError ''Attempting to delete a message with an ID that does not exist'')
          else merge_loop (merged @ [m]) (merged_by_id(mid m \<mapsto> length merged))
                 ids_to_remove right)"

definition add_messages ::
  "(nat \<Rightarrow> string) \<Rightarrow> nat \<Rightarrow> message list \<Rightarrow> message list \<Rightarrow> (error + message list) \<times> nat" where
  "add_messages uuid4 n left right =
     (case assign_ids uuid4 n left of (left', n1) \<Rightarrow>
      case assign_ids uuid4 n1 right of (right', n2) \<Rightarrow>
        (case after_remove_all right' of
           Some rest \<Rightarrow> (Inr rest, n2)
         | None \<Rightarrow>
             (case merge_loop left' (index_by_id 0 left' Map.empty) {} right' of
                Inl e \<Rightarrow> (Inl e, n2)
              | Inr (merged, ids_to_remove) \<Rightarrow>
                  (Inr (filter (\<lambda>m. mid m \<notin> ids_to_remove) merged), n2))))"

text \<open>
  The invariant of the merge loop: \<open>merged_by_id\<close> knows exactly the ids of \<open>merged\<close>, and
  sends each to an index where \<open>merged\<close> holds a message with that id.
\<close>

definition indexed :: "message list \<Rightarrow> (string option \<rightharpoonup> nat) \<Rightarrow> bool" where
  "indexed merged d \<longleftrightarrow>
     dom d = mid ` set merged
     \<and> (\<forall>k idx. d k = Some idx \<longrightarrow> idx < length merged \<and> mid (merged ! idx) = k)"

section \<open>The deep research graph: Context, State and partial updates\<close>

record Context =
  model_name :: string
  temperature :: real
  max_concurrent_research_units :: int
  max_researcher_iterations :: int

definition DEFAULT_MODEL_NAME :: string where
  "DEFAULT_MODEL_NAME = ''claude-sonnet-4-5-20250929''"

definition DEFAULT_TEMPERATURE :: real where
  "DEFAULT_TEMPERATURE = 0"

definition DEFAULT_MAX_CONCURRENT_RESEARCH_UNITS :: int where
  "DEFAULT_MAX_CONCURRENT_RESEARCH_UNITS = 3"

definition DEFAULT_MAX_RESEARCHER_ITERATIONS :: int where
  "DEFAULT_MAX_RESEARCHER_ITERATIONS = 3"

definition default_Context :: Context where
  "default_Context =
     \<lparr>model_name = DEFAULT_MODEL_NAME, temperature = DEFAULT_TEMPERATURE,
      max_concurrent_research_units = DEFAULT_MAX_CONCURRENT_RESEARCH_UNITS,
      max_researcher_iterations = DEFAULT_MAX_RESEARCHER_ITERATIONS\<rparr>"

text \<open>
  \<open>State\<close> is a \<open>TypedDict\<close>: it declares no default, so \<open>query\<close> and
  \<open>research_complete\<close> are absent (\<open>None\<close>) until something writes them. The
  \<open>messages\<close> channel, which has a reducer, starts as the empty list.
\<close>

record State =
  messages :: "message list"
  query :: "string option"
  research_complete :: "bool option"

definition empty_State :: State where
  "empty_State = \<lparr>messages = [], query = None, research_complete = None\<rparr>"

text \<open>
  What a stage returns (and what a caller passes as input): a dictionary holding some of
  the fields of \<open>State\<close>.
\<close>

record update =
  u_messages :: "message list option"
  u_query :: "string option"
  u_research_complete :: "bool option"

text \<open>
  Applying an update: \<open>messages\<close> goes through its reducer \<open>add_messages\<close>; the other two
  fields have none, so the last write wins; a field absent from the update is not written.
\<close>

definition merge_State ::
  "(nat \<Rightarrow> string) \<Rightarrow> nat \<Rightarrow> State \<Rightarrow> update \<Rightarrow> (error + State) \<times> nat" where
  "merge_State uuid4 n state u =
     (let state1 = (case u_query u of None \<Rightarrow> state | Some q \<Rightarrow> state\<lparr>query := Some q\<rparr>);
          state2 = (case u_research_complete u of
                      None \<Rightarrow> state1
                    | Some b \<Rightarrow> state1\<lparr>research_complete := Some b\<rparr>)
      in case u_messages u of
           None \<Rightarrow> (Inr state2, n)
         | Some new \<Rightarrow>
             (case add_messages uuid4 n (messages state) new of
                (Inl e, n') \<Rightarrow> (Inl e, n')
              | (Inr merged, n') \<Rightarrow> (Inr (state2\<lparr>messages := merged\<rparr>), n')))"

text \<open>
  \<open>prepare_research\<close>: \<open>state.get("query", "")\<close>, \<open>state.get("messages", [])\<close>, and the
  truthiness test \<open>query and not messages\<close> (a string or list is true when not empty).
\<close>

definition get_query :: "State \<Rightarrow> string" where
  "get_query state = (case query state of None \<Rightarrow> [] | Some s \<Rightarrow> s)"

definition prepare_research :: "State \<Rightarrow> Context \<Rightarrow> update" where
  "prepare_research state ctx =
     (let q = get_query state;
          msgs = messages state;
          msgs' = (if q \<noteq> [] \<and> msgs = [] then [HumanMessage q] else msgs)
      in \<lparr>u_messages = Some msgs', u_query = None, u_research_complete = Some False\<rparr>)"

text \<open>\<open>finalize_research\<close> returns \<open>{"research_complete": True}\<close> and nothing else.\<close>

definition finalize_research :: "State \<Rightarrow> Context \<Rightarrow> update" where
  "finalize_research state ctx =
     \<lparr>u_messages = None, u_query = None, u_research_complete = Some True\<rparr>"

section \<open>Effects: the external collaborators and the trace of what a run does\<close>

datatype tool = think_tool | internet_search | McpTool string

record chat_model =
  cm_model :: string
  cm_temperature :: real

text \<open>
  The middlewares of \<open>langchain.agents.middleware\<close> with the arguments they can be given:
  the two call limits take a \<open>thread_limit\<close> and a \<open>run_limit\<close>, each \<open>None\<close> when not
  passed; the fallback takes a first model and further ones.
\<close>

datatype middleware =
    ModelCallLimitMiddleware "int option" "int option"
  | ToolCallLimitMiddleware "int option" "int option"
  | ModelFallbackMiddleware string "string list"
  | ModelRetryMiddleware
  | ToolRetryMiddleware

record subagent =
  sa_name :: string
  sa_description :: string
  sa_system_prompt :: string
  sa_tools :: "tool list"

record CompositeBackend =
  default :: string
  routes :: "(string \<times> string) list"

text \<open>The arguments \<open>create_deep_agent\<close> is called with.\<close>

record deep_agent =
  da_model :: chat_model
  da_tools :: "tool list"
  da_system_prompt :: string
  da_middleware :: "middleware list"
  da_subagents :: "subagent list"
  da_backend :: CompositeBackend

text \<open>
  The prompt constants live in \<open>agents.deep.research_agent.prompts\<close>, which is not among
  the sources; they are parameters here. The two that \<open>str.format\<close> is called on are
  taken in parsed form: literal text and named replacement fields.
\<close>

datatype segment = Text string | Field string

type_synonym template = "segment list"

text \<open>
  Entering the context manager that \<open>create_sandbox\<close> (of \<open>deepagents_cli\<close>) returns
  creates the sandbox at the provider, then runs the setup script, and only then opens
  the \<open>try\<close> whose \<open>finally\<close> deletes the sandbox. So the entry has three outcomes: it
  raises before a sandbox exists; it raises after the sandbox was created, the setup
  script being missing or failing, and that sandbox is not deleted; or it yields the
  backend.
\<close>

datatype sandbox_entry =
    EntryRaised error
  | SetupRaised string error
  | Entered string

text \<open>
  What the world outside the program answers: the uuid generator, the clock, the prompt
  constants, the MCP server, the model factory, the sandbox provider, the agent
  constructor and the agent.
  An \<open>await\<close> that is cancelled raises \<open>CancelledError\<close> there, so cancellation is one of
  the errors an awaited call can answer with. The agent's result is a dictionary; \<open>None\<close>
  is a result without the key \<open>messages\<close>.
\<close>

record env =
  env_uuid4 :: "nat \<Rightarrow> string"
  env_today :: string
  RESEARCH_WORKFLOW_INSTRUCTIONS :: string
  SUBAGENT_DELEGATION_INSTRUCTIONS :: template
  RESEARCHER_INSTRUCTIONS :: template
  mcp_get_tools :: "error + tool list"
  init_chat_model :: "string \<Rightarrow> real \<Rightarrow> error + chat_model"
  create_sandbox :: "string \<Rightarrow> string \<Rightarrow> sandbox_entry"
  create_deep_agent :: "deep_agent \<Rightarrow> error + deep_agent"
  ainvoke :: "deep_agent \<Rightarrow> message list \<Rightarrow> error + message list option"
  model_ainvoke :: "chat_model \<Rightarrow> message list \<Rightarrow> error + message"

text \<open>
  What a run does to the outside, in order. \<open>CreateSandbox\<close> is the call of the sandbox
  provider, \<open>SandboxCreated\<close> the creation of a sandbox by the provider,
  \<open>SandboxExit\<close> its deletion on leaving the \<open>with\<close> block.
\<close>

datatype event =
    StageEntered string
  | McpGetTools
  | InitChatModel string real
  | CreateSandbox string string
  | SandboxCreated string
  | CreateDeepAgent deep_agent
  | AgentInvoke deep_agent "message list"
  | SandboxExit
  | ModelInvoke chat_model "message list"

record world =
  trace :: "event list"
  uuid_counter :: nat

type_synonym 'a io = "world \<Rightarrow> (error + 'a) \<times> world"

definition return_io :: "'a \<Rightarrow> 'a io" where
  "return_io x w = (Inr x, w)"

definition raise_io :: "error \<Rightarrow> 'a io" where
  "raise_io e w = (Inl e, w)"

definition bind_io :: "'a io \<Rightarrow> ('a \<Rightarrow> 'b io) \<Rightarrow> 'b io" where
  "bind_io m f w = (case m w of (Inl e, w') \<Rightarrow> (Inl e, w') | (Inr x, w') \<Rightarrow> f x w')"

definition emit :: "event \<Rightarrow> unit io" where
  "emit ev w = (Inr (), w\<lparr>trace := trace w @ [ev]\<rparr>)"

text \<open>A pure computation that may raise.\<close>

definition lift_io :: "error + 'a \<Rightarrow> 'a io" where
  "lift_io r w = (r, w)"

text \<open>A call to a collaborator: the call is recorded, then it answers or raises.\<close>

definition call_io :: "event \<Rightarrow> error + 'a \<Rightarrow> 'a io" where
  "call_io ev r w = (r, w\<lparr>trace := trace w @ [ev]\<rparr>)"

text \<open>
  Python's \<open>with enter as r: body\<close> for a context manager that does not swallow
  exceptions: if entering raises, the exception propagates and \<open>__exit__\<close> is not run
  (what the entry had done by then stays done); otherwise the body runs and \<open>__exit__\<close>
  runs after it, whether the body returned or raised (a cancellation is an exception
  raised at an \<open>await\<close> of the body).
\<close>

definition with_io :: "'r io \<Rightarrow> unit io \<Rightarrow> ('r \<Rightarrow> 'a io) \<Rightarrow> 'a io" where
  "with_io enter exit body w =
     (case enter w of
        (Inl e, w1) \<Rightarrow> (Inl e, w1)
      | (Inr r, w1) \<Rightarrow> (case body r w1 of (res, w2) \<Rightarrow> (res, snd (exit w2))))"

section \<open>The deep research graph: building the agent\<close>

text \<open>\<open>str\<close> of a Python integer.\<close>

definition digit_char :: "nat \<Rightarrow> char" where
  "digit_char d = ''0123456789'' ! d"

function str_nat :: "nat \<Rightarrow> string" where
  "str_nat n = (if n < 10 then [digit_char n] else str_nat (n div 10) @ [digit_char (n mod 10)])"
  by pat_completeness auto
termination
  by (relation "measure (\<lambda>n. n)") auto

definition str_int :: "int \<Rightarrow> string" where
  "str_int i = (if i < 0 then CHR ''-'' # str_nat (nat (- i)) else str_nat (nat i))"

text \<open>
  \<open>template.format(**kw)\<close>: fields are replaced from left to right; a field that is not
  among the keyword arguments raises \<open>KeyError\<close>.
\<close>

fun format_template :: "(string \<rightharpoonup> string) \<Rightarrow> template \<Rightarrow> error + string" where
  "format_template kw [] = Inr []"
| "format_template kw (Text s # t) =
     (case format_template kw t of Inl e \<Rightarrow> Inl e | Inr r \<Rightarrow> Inr (s @ r))"
| "format_template kw (Field f # t) =
     (case kw f of
        None \<Rightarrow> Inl (KeyError f)
      | Some v \<Rightarrow> (case format_template kw t of Inl e \<Rightarrow> Inl e | Inr r \<Rightarrow> Inr (v @ r)))"

definition get_current_date :: "env \<Rightarrow> string" where
  "get_current_date env = env_today env"

definition build_instructions :: "env \<Rightarrow> int \<Rightarrow> int \<Rightarrow> error + string" where
  "build_instructions env max_concurrent max_iterations =
     (case format_template
             [''max_concurrent_research_units'' \<mapsto> str_int max_concurrent,
              ''max_researcher_iterations'' \<mapsto> str_int max_iterations]
             (SUBAGENT_DELEGATION_INSTRUCTIONS env) of
        Inl e \<Rightarrow> Inl e
      | Inr delegation \<Rightarrow>
          Inr (RESEARCH_WORKFLOW_INSTRUCTIONS env
               @ [CHR 0x0A, CHR 0x0A]
               @ replicate 80 (CHR ''='')
               @ [CHR 0x0A, CHR 0x0A]
               @ delegation))"

definition create_research_subagent :: "env \<Rightarrow> string \<Rightarrow> tool list \<Rightarrow> error + subagent" where
  "create_research_subagent env current_date tools =
     (case format_template [''date'' \<mapsto> current_date] (RESEARCHER_INSTRUCTIONS env) of
        Inl e \<Rightarrow> Inl e
      | Inr prompt \<Rightarrow>
          Inr \<lparr>sa_name = ''research-agent'',
               sa_description = ''Delegate research to the sub-agent researcher. Only give this researcher one topic at a time.'',
               sa_system_prompt = prompt,
               sa_tools = tools\<rparr>)"

text \<open>\<open>tools.py\<close>: the MCP tools followed by the static tools.\<close>

definition static_tools :: "tool list" where
  "static_tools = [think_tool, internet_search]"

definition get_all_tools :: "env \<Rightarrow> tool list io" where
  "get_all_tools env =
     bind_io (call_io McpGetTools (mcp_get_tools env)) (\<lambda>mcp_tools.
       return_io (mcp_tools @ static_tools))"

text \<open>
  The middleware list that \<open>run_deep_agent\<close> passes to \<open>create_deep_agent\<close>: both call
  limits are given as \<open>thread_limit=10\<close>, and no \<open>run_limit\<close>.
\<close>

definition agent_middleware :: "middleware list" where
  "agent_middleware =
     [ModelCallLimitMiddleware (Some 10) None,
      ToolCallLimitMiddleware (Some 10) None,
      ModelFallbackMiddleware ''gpt-4o-mini'' [],
      ModelRetryMiddleware,
      ToolRetryMiddleware]"

text \<open>Entering \<open>create_sandbox(provider=..., setup_script_path=...)\<close>.\<close>

definition enter_sandbox :: "env \<Rightarrow> string \<Rightarrow> string \<Rightarrow> string io" where
  "enter_sandbox env provider setup_script_path =
     bind_io (emit (CreateSandbox provider setup_script_path)) (\<lambda>_.
       case create_sandbox env provider setup_script_path of
         EntryRaised e \<Rightarrow> raise_io e
       | SetupRaised backend e \<Rightarrow> bind_io (emit (SandboxCreated backend)) (\<lambda>_. raise_io e)
       | Entered backend \<Rightarrow> bind_io (emit (SandboxCreated backend)) (\<lambda>_. return_io backend))"

definition run_deep_agent :: "env \<Rightarrow> State \<Rightarrow> Context \<Rightarrow> update io" where
  "run_deep_agent env state ctx =
     (let name = model_name ctx;
          temp = temperature ctx;
          max_concurrent = max_concurrent_research_units ctx;
          max_iterations = max_researcher_iterations ctx;
          current_date = get_current_date env
      in
      bind_io (lift_io (build_instructions env max_concurrent max_iterations)) (\<lambda>instructions.
      bind_io (get_all_tools env) (\<lambda>tools.
      bind_io (lift_io (create_research_subagent env current_date tools)) (\<lambda>research_sub_agent.
      bind_io (call_io (InitChatModel name temp) (init_chat_model env name temp)) (\<lambda>model.
      bind_io
        (with_io
           (enter_sandbox env ''daytona'' ''scripts/sandbox_setup.sh'')
           (emit SandboxExit)
           (\<lambda>sandbox_backend.
              let args = \<lparr>da_model = model, da_tools = tools,
                          da_system_prompt = instructions,
                          da_middleware = agent_middleware,
                          da_subagents = [research_sub_agent],
                          da_backend = \<lparr>default = sandbox_backend, routes = []\<rparr>\<rparr>
              in
              bind_io (call_io (CreateDeepAgent args) (create_deep_agent env args)) (\<lambda>agent.
                call_io (AgentInvoke agent (messages state))
                  (ainvoke env agent (messages state)))))
        (\<lambda>result.
           return_io
             \<lparr>u_messages = Some (case result of None \<Rightarrow> [] | Some ms \<Rightarrow> ms),
              u_query = None,
              u_research_complete = Some True\<rparr>))))))"

section \<open>The deep research graph: topology and execution\<close>

type_synonym stage = "env \<Rightarrow> State \<Rightarrow> Context \<Rightarrow> update io"

record StateGraph =
  g_nodes :: "(string \<times> stage) list"
  g_edges :: "(string \<times> string) list"
  g_name :: string
  g_debug :: bool

definition START :: string where
  "START = ''__start__''"

definition END :: string where
  "END = ''__end__''"

definition new_StateGraph :: StateGraph where
  "new_StateGraph = \<lparr>g_nodes = [], g_edges = [], g_name = ''LangGraph'', g_debug = False\<rparr>"

definition add_node :: "string \<Rightarrow> stage \<Rightarrow> StateGraph \<Rightarrow> StateGraph" where
  "add_node name f g = g\<lparr>g_nodes := g_nodes g @ [(name, f)]\<rparr>"

definition add_edge :: "string \<Rightarrow> string \<Rightarrow> StateGraph \<Rightarrow> StateGraph" where
  "add_edge a b g = g\<lparr>g_edges := g_edges g @ [(a, b)]\<rparr>"

definition compile :: "string \<Rightarrow> bool \<Rightarrow> StateGraph \<Rightarrow> StateGraph" where
  "compile name debug g = g\<lparr>g_name := name, g_debug := debug\<rparr>"

text \<open>\<open>config.get("configurable", {}).get("debug", False)\<close>, made a \<open>bool\<close>.\<close>

type_synonym RunnableConfig = "string \<rightharpoonup> (string \<rightharpoonup> bool)"

definition config_debug :: "RunnableConfig \<Rightarrow> bool" where
  "config_debug config =
     (case config ''configurable'' of
        None \<Rightarrow> False
      | Some c \<Rightarrow> (case c ''debug'' of None \<Rightarrow> False | Some b \<Rightarrow> b))"

definition build_graph :: "RunnableConfig \<Rightarrow> StateGraph" where
  "build_graph config =
     (let debug = config_debug config;
          graph = new_StateGraph;
          graph = add_node ''prepare_research'' (\<lambda>env state ctx. return_io (prepare_research state ctx)) graph;
          graph = add_node ''run_deep_agent'' run_deep_agent graph;
          graph = add_node ''finalize_research'' (\<lambda>env state ctx. return_io (finalize_research state ctx)) graph;
          graph = add_edge START ''prepare_research'' graph;
          graph = add_edge ''prepare_research'' ''run_deep_agent'' graph;
          graph = add_edge ''run_deep_agent'' ''finalize_research'' graph;
          graph = add_edge ''finalize_research'' END graph
      in compile ''Research Agent'' debug graph)"

text \<open>
  Running a compiled chain, as the graph runtime does for a graph in which every node
  has one outgoing edge. The runtime works in steps. Step 0 is the node \<open>__start__\<close>,
  which writes the input into the state through the reducers. Every later step begins
  with a check of the step number against \<open>recursion_limit\<close>: beyond the limit the run
  raises \<open>GraphRecursionError\<close>; otherwise the step runs the node that is due (enter it,
  run its stage on the current state, apply the returned update through the reducers,
  follow the edge), or ends the run when nothing is due any more. The ending step is
  checked like the others, so a chain of three stages needs a limit of at least four; at
  three the stages all run and the run then raises. A limit below one is refused with
  \<open>ValueError\<close> before anything runs. A stage that raises stops the run, and its update
  is never applied.

  In \<open>run_from\<close> the first argument is the number of steps still allowed.
\<close>

definition apply_update :: "env \<Rightarrow> State \<Rightarrow> update \<Rightarrow> State io" where
  "apply_update env state u w =
     (case merge_State (env_uuid4 env) (uuid_counter w) state u of
        (r, n') \<Rightarrow> (r, w\<lparr>uuid_counter := n'\<rparr>))"

definition successor :: "StateGraph \<Rightarrow> string \<Rightarrow> string" where
  "successor g node = (case map_of (g_edges g) node of None \<Rightarrow> END | Some next \<Rightarrow> next)"

fun run_from :: "nat \<Rightarrow> StateGraph \<Rightarrow> env \<Rightarrow> Context \<Rightarrow> string \<Rightarrow> State \<Rightarrow> State io" where
  "run_from 0 g env ctx node state = raise_io GraphRecursionError"
| "run_from (Suc steps) g env ctx node state =
     (if node = END then return_io state
      else
        (case map_of (g_nodes g) node of
           None \<Rightarrow> raise_io (KeyError node)
         | Some f \<Rightarrow>
             bind_io (emit (StageEntered node)) (\<lambda>_.
             bind_io (f env state ctx) (\<lambda>u.
             bind_io (apply_update env state u) (\<lambda>state'.
               run_from steps g env ctx (successor g node) state')))))"

definition invoke :: "StateGraph \<Rightarrow> env \<Rightarrow> Context \<Rightarrow> nat \<Rightarrow> update \<Rightarrow> State io" where
  "invoke g env ctx recursion_limit input =
     (if recursion_limit < 1 then raise_io (ValueError ''recursion_limit must be at least 1'')
      else
        bind_io (apply_update env empty_State input) (\<lambda>state.
          run_from recursion_limit g env ctx (successor g START) state))"

section \<open>The simple graph\<close>

record Context_simple =
  model_name_s :: string
  temperature_s :: real

record State_simple =
  messages_s :: "message list"

record update_simple =
  us_messages :: "message list option"


definition call_model :: "env \<Rightarrow> State_simple \<Rightarrow> Context_simple \<Rightarrow> update_simple io" where
  "call_model env state ctx =
     (let name = model_name_s ctx;
          temp = temperature_s ctx
      in
      bind_io (call_io (InitChatModel name temp) (init_chat_model env name temp)) (\<lambda>model.
      bind_io (call_io (ModelInvoke model (messages_s state))
                 (model_ainvoke env model (messages_s state))) (\<lambda>response.
        return_io \<lparr>us_messages = Some [response]\<rparr>)))"

section \<open>The entry point: finding or creating an assistant\<close>

text \<open>
  An assistant of the remote service has an id, a graph, a name and a metadata dictionary;
  the name and the metadata are separate fields. \<open>client.assistants.search(metadata=md)\<close>
  answers with the stored assistants whose metadata holds every pair of \<open>md\<close>, the
  newest first (at most ten, the default limit); \<open>client.assistants.create(graph_id, config, context, name)\<close>
  stores a new assistant under a new id with the given name and, no metadata being
  passed, an empty metadata dictionary. A request to a service that is not reachable
  raises.
\<close>

record assistant =
  assistant_id :: string
  graph_id :: string
  a_name :: string
  a_metadata :: "(string \<times> string) list"
  a_config :: "(string \<times> string) list option"
  a_context :: "Context option"

datatype log_record = Found_existing_assistant string | Creating_new_assistant string

record client =
  store :: "assistant list"
  next_id :: nat
  reachable :: bool
  logged :: "log_record list"

definition assistants_search ::
  "(string \<times> string) list \<Rightarrow> client \<Rightarrow> (error + assistant list) \<times> client" where
  "assistants_search metadata c =
     (if reachable c
      then (Inr (take 10 (filter (\<lambda>a. set metadata \<subseteq> set (a_metadata a))
                            (rev (store c)))), c)
      else (Inl (ExternalError ''connection''), c))"

definition assistants_create ::
  "(nat \<Rightarrow> string) \<Rightarrow> string \<Rightarrow> (string \<times> string) list option \<Rightarrow> Context option \<Rightarrow> string
     \<Rightarrow> client \<Rightarrow> (error + assistant) \<times> client" where
  "assistants_create uuid4 graph config context name c =
     (if reachable c
      then (let a = \<lparr>assistant_id = uuid4 (next_id c), graph_id = graph, a_name = name,
                     a_metadata = [], a_config = config, a_context = context\<rparr>
            in (Inr a, c\<lparr>store := store c @ [a], next_id := Suc (next_id c)\<rparr>))
      else (Inl (ExternalError ''connection''), c))"

definition logger_info :: "log_record \<Rightarrow> client \<Rightarrow> client" where
  "logger_info r c = c\<lparr>logged := logged c @ [r]\<rparr>"

definition get_or_create_assistant ::
  "(nat \<Rightarrow> string) \<Rightarrow> string \<Rightarrow> string \<Rightarrow> (string \<times> string) list option \<Rightarrow> Context option
     \<Rightarrow> client \<Rightarrow> (error + assistant) \<times> client" where
  "get_or_create_assistant uuid4 name graph config context c =
     (case assistants_search [(''name'', name)] c of
        (Inl e, c1) \<Rightarrow> (Inl e, c1)
      | (Inr existing, c1) \<Rightarrow>
          (case existing of
             a # rest \<Rightarrow> (Inr a, logger_info (Found_existing_assistant name) c1)
           | [] \<Rightarrow>
               assistants_create uuid4 graph config context name
                 (logger_info (Creating_new_assistant name) c1)))"

section \<open>Reading a trace\<close>

text \<open>The events a computation adds to the trace of the world it starts in.\<close>

definition new_events :: "'a io \<Rightarrow> world \<Rightarrow> event list" where
  "new_events m w = drop (length (trace w)) (trace (snd (m w)))"

text \<open>The stages entered, in order, and the agents constructed.\<close>

fun stages_entered :: "event list \<Rightarrow> string list" where
  "stages_entered [] = []"
| "stages_entered (StageEntered name # es) = name # stages_entered es"
| "stages_entered (e # es) = stages_entered es"

fun created_agents :: "event list \<Rightarrow> deep_agent list" where
  "created_agents [] = []"
| "created_agents (CreateDeepAgent a # es) = a # created_agents es"
| "created_agents (e # es) = created_agents es"


section \<open>Example collaborators\<close>

text \<open>
  A concrete outside world for running the definitions: every collaborator answers, and
  the agent's behaviour is the parameter.
\<close>

definition example_uuid4 :: "nat \<Rightarrow> string" where
  "example_uuid4 n = ''uuid'' @ replicate n (CHR ''+'')"

definition example_env ::
  "(deep_agent \<Rightarrow> message list \<Rightarrow> error + message list option) \<Rightarrow> env" where
  "example_env agent_behaviour =
     \<lparr>env_uuid4 = example_uuid4,
      env_today = ''2026-01-01'',
      RESEARCH_WORKFLOW_INSTRUCTIONS = ''Plan, delegate, synthesize.'',
      SUBAGENT_DELEGATION_INSTRUCTIONS =
        [Text ''Use at most '', Field ''max_concurrent_research_units'',
         Text '' parallel sub-agents; stop after '', Field ''max_researcher_iterations'',
         Text '' rounds.''],
      RESEARCHER_INSTRUCTIONS = [Text ''Today is '', Field ''date'', Text ''.''],
      mcp_get_tools = Inr [McpTool ''browserbase_stagehand_navigate''],
      init_chat_model = (\<lambda>name temp. Inr \<lparr>cm_model = name, cm_temperature = temp\<rparr>),
      create_sandbox = (\<lambda>provider script. Entered ''sandbox-1''),
      create_deep_agent = (\<lambda>args. Inr args),
      ainvoke = agent_behaviour,
      model_ainvoke = (\<lambda>model msgs. Inr \<lparr>mtype = AI, content = ''ok'', mid = Some ''run-0''\<rparr>)\<rparr>"

definition example_reply :: message where
  "example_reply = \<lparr>mtype = AI, content = ''LangGraph is a library.'', mid = Some ''run-1''\<rparr>"

text \<open>An agent that answers with the conversation it was given and one reply.\<close>

definition replying_agent :: "deep_agent \<Rightarrow> message list \<Rightarrow> error + message list option" where
  "replying_agent agent msgs = Inr (Some (msgs @ [example_reply]))"

text \<open>An agent whose result dictionary has no \<open>messages\<close>.\<close>

definition silent_agent :: "deep_agent \<Rightarrow> message list \<Rightarrow> error + message list option" where
  "silent_agent agent msgs = Inr None"

text \<open>An agent whose invocation is cancelled while it is awaited.\<close>

definition cancelled_agent :: "deep_agent \<Rightarrow> message list \<Rightarrow> error + message list option" where
  "cancelled_agent agent msgs = Inl CancelledError"



definition example_world :: world where
  "example_world = \<lparr>trace = [], uuid_counter = 0\<rparr>"

definition example_input :: update where
  "example_input =
     \<lparr>u_messages = Some [], u_query = Some ''What is LangGraph?'', u_research_complete = None\<rparr>"

text \<open>The first assistant \<open>main\<close> asks for: \<open>DeepContext(model_name=..., temperature=0.9)\<close>.\<close>

definition creative_context :: Context where
  "creative_context = default_Context\<lparr>model_name := ''claude-sonnet-4-5-20250929'', temperature := 9 / 10\<rparr>"

definition example_client :: client where
  "example_client = \<lparr>store = [], next_id = 0, reachable = True, logged = []\<rparr>"

section \<open>Lemmas on the reducer \<open>add_messages\<close>\<close>

lemma assign_ids_all_Some:
  "\<forall>m\<in>set ms. mid m \<noteq> None \<Longrightarrow> assign_ids uuid4 n ms = (ms, n)"
  by (induction ms arbitrary: n) (auto split: option.splits)

lemma dom_index_by_id: "dom (index_by_id i ms d) = dom d \<union> mid ` set ms"
  by (induction ms arbitrary: i d) auto

lemma index_by_id_notin:
  "k \<notin> mid ` set ms \<Longrightarrow> index_by_id i ms d k = d k"
  by (induction ms arbitrary: i d) auto

lemma index_by_id_nth:
  "distinct (map mid ms) \<Longrightarrow> j < length ms \<Longrightarrow> index_by_id i ms d (mid (ms ! j)) = Some (i + j)"
proof (induction ms arbitrary: i d j)
  case Nil
  then show ?case by simp
next
  case (Cons m ms)
  show ?case
  proof (cases j)
    case 0
    with Cons.prems show ?thesis by (simp add: index_by_id_notin)
  next
    case (Suc j')
    have "index_by_id (Suc i) ms (d(mid m \<mapsto> i)) (mid (ms ! j')) = Some (Suc i + j')"
      using Cons.prems Suc by (intro Cons.IH) auto
    then show ?thesis using Suc by simp
  qed
qed

lemma after_remove_all_None:
  "\<forall>m\<in>set ms. mtype m \<noteq> Remove \<Longrightarrow> after_remove_all ms = None"
  by (induction ms) (auto simp: is_remove_all_def)

text \<open>Messages with new, pairwise distinct ids, none of them a removal, are appended.\<close>

lemma merge_loop_append:
  "distinct (map mid right) \<Longrightarrow> mid ` set right \<inter> dom d = {} \<Longrightarrow>
   \<forall>m\<in>set right. mtype m \<noteq> Remove \<Longrightarrow>
   merge_loop merged d rm right = Inr (merged @ right, rm)"
proof (induction right arbitrary: merged d)
  case Nil
  then show ?case by simp
next
  case (Cons m right)
  from Cons.prems have none: "d (mid m) = None" by auto
  from Cons.prems have keep: "mtype m \<noteq> Remove" by simp
  have dom_eq: "dom (d(mid m \<mapsto> length merged)) = insert (mid m) (dom d)"
    by simp
  from Cons.prems have a: "mid m \<notin> mid ` set right" and b: "mid ` set right \<inter> dom d = {}"
    by simp_all
  have fresh: "mid ` set right \<inter> dom (d(mid m \<mapsto> length merged)) = {}"
    unfolding dom_eq using a b by simp
  from Cons.prems have d1: "distinct (map mid right)"
    and r1: "\<forall>m\<in>set right. mtype m \<noteq> Remove"
    by simp_all
  have "merge_loop (merged @ [m]) (d(mid m \<mapsto> length merged)) rm right
          = Inr ((merged @ [m]) @ right, rm)"
    by (rule Cons.IH [OF d1 fresh r1])
  then show ?case by (simp add: none keep)
qed

lemma add_messages_append:
  assumes "\<forall>m\<in>set left. mid m \<noteq> None" "\<forall>m\<in>set right. mid m \<noteq> None"
    and "distinct (map mid right)" "mid ` set right \<inter> mid ` set left = {}"
    and "\<forall>m\<in>set right. mtype m \<noteq> Remove"
  shows "add_messages uuid4 n left right = (Inr (left @ right), n)"
proof -
  have "mid ` set right \<inter> dom (index_by_id 0 left Map.empty) = {}"
    using assms(4) by (simp add: dom_index_by_id)
  then have loop: "merge_loop left (index_by_id 0 left Map.empty) {} right = Inr (left @ right, {})"
    using assms(3,5) by (intro merge_loop_append)
  have l: "assign_ids uuid4 n left = (left, n)"
    using assms(1) by (rule assign_ids_all_Some)
  have r: "assign_ids uuid4 n right = (right, n)"
    using assms(2) by (rule assign_ids_all_Some)
  have none: "after_remove_all right = None"
    using assms(5) by (rule after_remove_all_None)
  show ?thesis
    by (simp add: add_messages_def l r none loop)
qed

text \<open>A message whose id is already present replaces the message that carries it.\<close>

lemma add_messages_replace:
  assumes "\<forall>m\<in>set left. mid m \<noteq> None" "distinct (map mid left)"
    and "j < length left" "mid m = mid (left ! j)" "mtype m \<noteq> Remove"
  shows "add_messages uuid4 n left [m] = (Inr (left[j := m]), n)"
proof -
  have m: "mid m \<noteq> None" using assms(1,3,4) by (metis nth_mem)
  have idx: "index_by_id 0 left Map.empty (mid m) = Some j"
    using index_by_id_nth [OF assms(2,3), of 0 Map.empty] assms(4) by simp
  have loop: "merge_loop left (index_by_id 0 left Map.empty) {} [m] = Inr (left[j := m], {})"
    by (simp add: idx assms(5))
  have l: "assign_ids uuid4 n left = (left, n)"
    using assms(1) by (rule assign_ids_all_Some)
  have r: "assign_ids uuid4 n [m] = ([m], n)"
    using m by (intro assign_ids_all_Some) simp
  have none: "after_remove_all [m] = None"
    using assms(5) by (intro after_remove_all_None) simp
  show ?thesis
    by (simp add: add_messages_def l r none loop
          del: assign_ids.simps after_remove_all.simps merge_loop.simps)
qed

text \<open>
  What the deep graph meets: the state holds one message, and the update repeats it and
  goes on with new ones.
\<close>

lemma add_messages_echo:
  assumes "mid hm = Some i" "mtype hm \<noteq> Remove"
    and "\<forall>m\<in>set new. mid m \<noteq> None \<and> mid m \<noteq> Some i \<and> mtype m \<noteq> Remove"
    and "distinct (map mid new)"
  shows "add_messages uuid4 n [hm] (hm # new) = (Inr (hm # new), n)"
proof -
  have "mid ` set new \<inter> dom [Some i \<mapsto> (0::nat)] = {}" using assms(3) by auto
  then have "merge_loop [hm] [Some i \<mapsto> 0] {} new = Inr ([hm] @ new, {})"
    using assms(3,4) by (intro merge_loop_append) auto
  then have loop: "merge_loop [hm] (index_by_id 0 [hm] Map.empty) {} (hm # new) = Inr (hm # new, {})"
    by (simp add: assms(1,2))
  have r: "assign_ids uuid4 n (hm # new) = (hm # new, n)"
    using assms(1,3) by (intro assign_ids_all_Some) auto
  have none: "after_remove_all (hm # new) = None"
    using assms(2,3) by (intro after_remove_all_None) auto
  have l: "assign_ids uuid4 n [hm] = ([hm], n)"
    by (simp add: assms(1))
  show ?thesis
    by (simp add: add_messages_def l r none loop
          del: assign_ids.simps after_remove_all.simps merge_loop.simps index_by_id.simps)
qed

lemma add_messages_first:
  "add_messages uuid4 n [] [HumanMessage q]
     = (Inr [(HumanMessage q)\<lparr>mid := Some (uuid4 n)\<rparr>], Suc n)"
  by (simp add: add_messages_def HumanMessage_def is_remove_all_def)

lemma add_messages_nothing: "add_messages uuid4 n [] [] = (Inr [], n)"
  by (simp add: add_messages_def)

lemma index_by_id_valid:
  "index_by_id i ms d k = Some idx \<Longrightarrow>
     d k = Some idx \<or> (i \<le> idx \<and> idx < i + length ms \<and> mid (ms ! (idx - i)) = k)"
proof (induction ms arbitrary: i d)
  case Nil
  then show ?case by simp
next
  case (Cons m ms)
  from Cons.prems have "index_by_id (Suc i) ms (d(mid m \<mapsto> i)) k = Some idx" by simp
  from Cons.IH [OF this]
  consider (old) "(d(mid m \<mapsto> i)) k = Some idx"
    | (new) "Suc i \<le> idx" "idx < Suc i + length ms" "mid (ms ! (idx - Suc i)) = k"
    by blast
  then show ?case
  proof cases
    case old
    then show ?thesis by (auto split: if_splits)
  next
    case new
    then have "idx - i = Suc (idx - Suc i)" by simp
    with new show ?thesis by simp
  qed
qed

lemma indexed_index_by_id: "indexed left (index_by_id 0 left Map.empty)"
proof -
  have "dom (index_by_id 0 left Map.empty) = mid ` set left"
    by (simp add: dom_index_by_id)
  moreover have "idx < length left \<and> mid (left ! idx) = k"
    if "index_by_id 0 left Map.empty k = Some idx" for k idx
    using index_by_id_valid [OF that] by simp
  ultimately show ?thesis
    unfolding indexed_def by blast
qed

lemma indexedD:
  "indexed merged d \<Longrightarrow> d k = Some idx \<Longrightarrow> idx < length merged \<and> mid (merged ! idx) = k"
  by (simp add: indexed_def)

lemma indexed_dom: "indexed merged d \<Longrightarrow> dom d = mid ` set merged"
  by (simp add: indexed_def)

lemma indexed_replace:
  assumes "indexed merged d" "d (mid m) = Some idx"
  shows "indexed (merged[idx := m]) d \<and> map mid (merged[idx := m]) = map mid merged
         \<and> idx < length merged"
proof -
  from indexedD [OF assms] have idx: "idx < length merged" "mid (merged ! idx) = mid m"
    by simp_all
  then have same: "map mid (merged[idx := m]) = map mid merged"
    by (simp add: map_update list_update_same_conv)
  have "mid ` set (merged[idx := m]) = set (map mid (merged[idx := m]))" by simp
  also have "\<dots> = mid ` set merged" unfolding same by simp
  finally have ids: "mid ` set (merged[idx := m]) = mid ` set merged" .
  have "j < length (merged[idx := m]) \<and> mid (merged[idx := m] ! j) = k"
    if "d k = Some j" for k j
  proof -
    from indexedD [OF assms(1) that] have j: "j < length merged" "mid (merged ! j) = k"
      by simp_all
    have "mid (merged[idx := m] ! j) = map mid (merged[idx := m]) ! j"
      using j(1) by simp
    also have "\<dots> = mid (merged ! j)" unfolding same using j(1) by simp
    finally show ?thesis using j by simp
  qed
  moreover have "dom d = mid ` set (merged[idx := m])"
    using indexed_dom [OF assms(1)] ids by simp
  ultimately have "indexed (merged[idx := m]) d"
    unfolding indexed_def by blast
  with same idx(1) show ?thesis by simp
qed

lemma indexed_append:
  assumes "indexed merged d" "d (mid m) = None"
  shows "indexed (merged @ [m]) (d(mid m \<mapsto> length merged)) \<and> mid m \<notin> mid ` set merged"
proof -
  have fresh: "mid m \<notin> mid ` set merged"
    using indexed_dom [OF assms(1)] assms(2) by (metis domIff)
  have "j < length (merged @ [m]) \<and> mid ((merged @ [m]) ! j) = k"
    if h: "(d(mid m \<mapsto> length merged)) k = Some j" for k j
  proof (cases "k = mid m")
    case True
    with h have "j = length merged" by simp
    with True show ?thesis by simp
  next
    case False
    with h have "d k = Some j" by simp
    from indexedD [OF assms(1) this] show ?thesis by (simp add: nth_append)
  qed
  moreover have "dom (d(mid m \<mapsto> length merged)) = mid ` set (merged @ [m])"
    using indexed_dom [OF assms(1)] by simp
  ultimately have "indexed (merged @ [m]) (d(mid m \<mapsto> length merged))"
    unfolding indexed_def by blast
  with fresh show ?thesis by simp
qed


text \<open>The merge loop on an update without removals.\<close>

lemma merge_loop_no_remove:
  assumes "indexed merged d" and "\<forall>m\<in>set right. mtype m \<noteq> Remove"
  shows "\<exists>merged' extra.
           merge_loop merged d {} right = Inr (merged', {})
           \<and> map mid merged' = map mid merged @ extra
           \<and> distinct extra
           \<and> set extra = mid ` set right - mid ` set merged
           \<and> (\<forall>j<length merged. mid (merged ! j) \<notin> mid ` set right \<longrightarrow> merged' ! j = merged ! j)
           \<and> (\<forall>m\<in>set right. last (filter (\<lambda>x. mid x = mid m) right) \<in> set merged')
           \<and> set merged' \<subseteq> set merged \<union> set right"
  using assms
proof (induction right arbitrary: merged d)
  case Nil
  then show ?case by simp
next
  case (Cons m right)
  from Cons.prems have keep: "mtype m \<noteq> Remove"
    and nr: "\<forall>m\<in>set right. mtype m \<noteq> Remove"
    by simp_all
  show ?case
  proof (cases "d (mid m)")
    case (Some idx)
    from indexed_replace [OF Cons.prems(1) Some]
    have ind: "indexed (merged[idx := m]) d"
      and same: "map mid (merged[idx := m]) = map mid merged"
      and idx: "idx < length merged"
      by simp_all
    from indexedD [OF Cons.prems(1) Some] have at: "mid (merged ! idx) = mid m" by simp
    have ids: "mid ` set (merged[idx := m]) = mid ` set merged"
      using same by (metis set_map)
    have known: "mid m \<in> mid ` set merged"
      using at idx by (metis imageI nth_mem)
    from Cons.IH [OF ind nr] obtain merged' extra where
      loop: "merge_loop (merged[idx := m]) d {} right = Inr (merged', {})"
      and mids: "map mid merged' = map mid (merged[idx := m]) @ extra"
      and dist: "distinct extra"
      and ext: "set extra = mid ` set right - mid ` set (merged[idx := m])"
      and keepold: "\<forall>j<length (merged[idx := m]).
                      mid (merged[idx := m] ! j) \<notin> mid ` set right \<longrightarrow> merged' ! j = merged[idx := m] ! j"
      and lasts: "\<forall>x\<in>set right. last (filter (\<lambda>y. mid y = mid x) right) \<in> set merged'"
      and sub: "set merged' \<subseteq> set (merged[idx := m]) \<union> set right"
      by (elim exE conjE) (rule that)
    have 1: "merge_loop merged d {} (m # right) = Inr (merged', {})"
      using loop by (simp add: Some keep)
    have 2: "map mid merged' = map mid merged @ extra"
      using mids same by simp
    have len: "length merged \<le> length merged'"
      using arg_cong [OF 2, of length] by simp
    have 3: "set extra = mid ` set (m # right) - mid ` set merged"
      using ext ids known by auto
    have 4: "\<forall>j<length merged. mid (merged ! j) \<notin> mid ` set (m # right) \<longrightarrow> merged' ! j = merged ! j"
    proof (intro allI impI)
      fix j
      assume j: "j < length merged" and out: "mid (merged ! j) \<notin> mid ` set (m # right)"
      from out at have ne: "j \<noteq> idx" by auto
      then have eq: "merged[idx := m] ! j = merged ! j" by simp
      from out have "mid (merged[idx := m] ! j) \<notin> mid ` set right" unfolding eq by simp
      with keepold j have "merged' ! j = merged[idx := m] ! j" by simp
      with eq show "merged' ! j = merged ! j" by simp
    qed
    have 5: "\<forall>x\<in>set (m # right). last (filter (\<lambda>y. mid y = mid x) (m # right)) \<in> set merged'"
    proof
      fix x
      assume x: "x \<in> set (m # right)"
      show "last (filter (\<lambda>y. mid y = mid x) (m # right)) \<in> set merged'"
      proof (cases "filter (\<lambda>y. mid y = mid x) right = []")
        case True
        then have no: "mid x \<notin> mid ` set right"
          by (auto simp: filter_empty_conv)
        with x have xm: "x = m" by auto
        have "merged[idx := m] ! idx = m" using idx by simp
        moreover have "merged' ! idx = merged[idx := m] ! idx"
          using keepold idx no xm by simp
        ultimately have "m \<in> set merged'"
          using idx len by (metis nth_mem less_le_trans)
        with True xm show ?thesis by simp
      next
        case False
        then obtain y where y: "y \<in> set right" "mid y = mid x"
          by (auto simp: filter_empty_conv)
        from lasts y(1) have "last (filter (\<lambda>z. mid z = mid y) right) \<in> set merged'" by simp
        with y(2) False show ?thesis by simp
      qed
    qed
    have 6: "set merged' \<subseteq> set merged \<union> set (m # right)"
      using sub set_update_subset_insert [of merged idx m] by auto
    have "merge_loop merged d {} (m # right) = Inr (merged', {})
           \<and> map mid merged' = map mid merged @ extra
           \<and> distinct extra
           \<and> set extra = mid ` set (m # right) - mid ` set merged
           \<and> (\<forall>j<length merged. mid (merged ! j) \<notin> mid ` set (m # right) \<longrightarrow> merged' ! j = merged ! j)
           \<and> (\<forall>x\<in>set (m # right). last (filter (\<lambda>y. mid y = mid x) (m # right)) \<in> set merged')
           \<and> set merged' \<subseteq> set merged \<union> set (m # right)"
      by (intro conjI 1 2 dist 3 4 5 6)
    then show ?thesis by (intro exI)
  next
    case None
    from indexed_append [OF Cons.prems(1) None]
    have ind: "indexed (merged @ [m]) (d(mid m \<mapsto> length merged))"
      and fresh: "mid m \<notin> mid ` set merged"
      by simp_all
    from Cons.IH [OF ind nr] obtain merged' extra where
      loop: "merge_loop (merged @ [m]) (d(mid m \<mapsto> length merged)) {} right = Inr (merged', {})"
      and mids: "map mid merged' = map mid (merged @ [m]) @ extra"
      and dist: "distinct extra"
      and ext: "set extra = mid ` set right - mid ` set (merged @ [m])"
      and keepold: "\<forall>j<length (merged @ [m]).
                      mid ((merged @ [m]) ! j) \<notin> mid ` set right \<longrightarrow> merged' ! j = (merged @ [m]) ! j"
      and lasts: "\<forall>x\<in>set right. last (filter (\<lambda>y. mid y = mid x) right) \<in> set merged'"
      and sub: "set merged' \<subseteq> set (merged @ [m]) \<union> set right"
      by (elim exE conjE) (rule that)
    have len: "length merged < length merged'"
      using arg_cong [OF mids, of length] by simp
    have 1: "merge_loop merged d {} (m # right) = Inr (merged', {})"
      using loop by (simp add: None keep)
    have 2: "map mid merged' = map mid merged @ (mid m # extra)"
      using mids by simp
    have 3: "distinct (mid m # extra)"
      using dist ext by auto
    have 4: "set (mid m # extra) = mid ` set (m # right) - mid ` set merged"
      using ext fresh by auto
    have 5: "\<forall>j<length merged. mid (merged ! j) \<notin> mid ` set (m # right) \<longrightarrow> merged' ! j = merged ! j"
    proof (intro allI impI)
      fix j
      assume j: "j < length merged" and out: "mid (merged ! j) \<notin> mid ` set (m # right)"
      have eq: "(merged @ [m]) ! j = merged ! j" using j by (simp add: nth_append)
      from out have "mid ((merged @ [m]) ! j) \<notin> mid ` set right" unfolding eq by simp
      with keepold j have "merged' ! j = (merged @ [m]) ! j" by simp
      with eq show "merged' ! j = merged ! j" by simp
    qed
    have 6: "\<forall>x\<in>set (m # right). last (filter (\<lambda>y. mid y = mid x) (m # right)) \<in> set merged'"
    proof
      fix x
      assume x: "x \<in> set (m # right)"
      show "last (filter (\<lambda>y. mid y = mid x) (m # right)) \<in> set merged'"
      proof (cases "filter (\<lambda>y. mid y = mid x) right = []")
        case True
        then have no: "mid x \<notin> mid ` set right"
          by (auto simp: filter_empty_conv)
        with x have xm: "x = m" by auto
        have "(merged @ [m]) ! length merged = m" by simp
        moreover have "merged' ! length merged = (merged @ [m]) ! length merged"
          using keepold no xm by simp
        ultimately have "m \<in> set merged'"
          using len by (metis nth_mem)
        with True xm show ?thesis by simp
      next
        case False
        then obtain y where y: "y \<in> set right" "mid y = mid x"
          by (auto simp: filter_empty_conv)
        from lasts y(1) have "last (filter (\<lambda>z. mid z = mid y) right) \<in> set merged'" by simp
        with y(2) False show ?thesis by simp
      qed
    qed
    have 7: "set merged' \<subseteq> set merged \<union> set (m # right)"
      using sub by auto
    have "merge_loop merged d {} (m # right) = Inr (merged', {})
           \<and> map mid merged' = map mid merged @ (mid m # extra)
           \<and> distinct (mid m # extra)
           \<and> set (mid m # extra) = mid ` set (m # right) - mid ` set merged
           \<and> (\<forall>j<length merged. mid (merged ! j) \<notin> mid ` set (m # right) \<longrightarrow> merged' ! j = merged ! j)
           \<and> (\<forall>x\<in>set (m # right). last (filter (\<lambda>y. mid y = mid x) (m # right)) \<in> set merged')
           \<and> set merged' \<subseteq> set merged \<union> set (m # right)"
      by (intro conjI 1 2 3 4 5 6 7)
    then show ?thesis by (intro exI)
  qed
qed


text \<open>What the assignment of ids does, position by position.\<close>

lemma assign_ids_spec:
  "assign_ids uuid4 n ms = (ms', n') \<Longrightarrow>
     length ms' = length ms \<and> n \<le> n'
     \<and> (\<forall>j<length ms.
           mtype (ms' ! j) = mtype (ms ! j) \<and> content (ms' ! j) = content (ms ! j)
           \<and> (mid (ms ! j) \<noteq> None \<longrightarrow> mid (ms' ! j) = mid (ms ! j))
           \<and> (mid (ms ! j) = None \<longrightarrow> (\<exists>k. n \<le> k \<and> k < n' \<and> mid (ms' ! j) = Some (uuid4 k))))"
proof (induction ms arbitrary: n ms' n')
  case Nil
  then show ?case by simp
next
  case (Cons m ms)
  show ?case
  proof (cases "mid m")
    case None
    obtain rest k where rest: "assign_ids uuid4 (Suc n) ms = (rest, k)"
      by (cases "assign_ids uuid4 (Suc n) ms")
    with Cons.prems None have ms': "ms' = m\<lparr>mid := Some (uuid4 n)\<rparr> # rest" and n': "n' = k"
      by simp_all
    from Cons.IH [OF rest] have len: "length rest = length ms" and le: "Suc n \<le> k"
      and pos: "\<forall>j<length ms.
           mtype (rest ! j) = mtype (ms ! j) \<and> content (rest ! j) = content (ms ! j)
           \<and> (mid (ms ! j) \<noteq> None \<longrightarrow> mid (rest ! j) = mid (ms ! j))
           \<and> (mid (ms ! j) = None \<longrightarrow> (\<exists>i. Suc n \<le> i \<and> i < k \<and> mid (rest ! j) = Some (uuid4 i)))"
      by simp_all
    have "mtype (ms' ! j) = mtype ((m # ms) ! j) \<and> content (ms' ! j) = content ((m # ms) ! j)
           \<and> (mid ((m # ms) ! j) \<noteq> None \<longrightarrow> mid (ms' ! j) = mid ((m # ms) ! j))
           \<and> (mid ((m # ms) ! j) = None \<longrightarrow> (\<exists>i. n \<le> i \<and> i < n' \<and> mid (ms' ! j) = Some (uuid4 i)))"
      if j: "j < length (m # ms)" for j
    proof (cases j)
      case 0
      have "n \<le> n \<and> n < n' \<and> Some (uuid4 n) = Some (uuid4 n)" using le n' by simp
      then have "\<exists>i. n \<le> i \<and> i < n' \<and> Some (uuid4 n) = Some (uuid4 i)" by (intro exI)
      with 0 None show ?thesis by (simp add: ms')
    next
      case (Suc j')
      with j have j': "j' < length ms" by simp
      from pos j' obtain i where
        "mid (ms ! j') = None \<longrightarrow> Suc n \<le> i \<and> i < k \<and> mid (rest ! j') = Some (uuid4 i)"
        by blast
      then have "mid (ms ! j') = None \<longrightarrow> (\<exists>i. n \<le> i \<and> i < n' \<and> mid (rest ! j') = Some (uuid4 i))"
        using n' by (metis Suc_leD)
      with pos j' Suc show ?thesis by (simp add: ms')
    qed
    with len le n' show ?thesis by (simp add: ms')
  next
    case (Some i)
    obtain rest k where rest: "assign_ids uuid4 n ms = (rest, k)"
      by (cases "assign_ids uuid4 n ms")
    with Cons.prems Some have ms': "ms' = m # rest" and n': "n' = k"
      by simp_all
    from Cons.IH [OF rest] have len: "length rest = length ms" and le: "n \<le> k"
      and pos: "\<forall>j<length ms.
           mtype (rest ! j) = mtype (ms ! j) \<and> content (rest ! j) = content (ms ! j)
           \<and> (mid (ms ! j) \<noteq> None \<longrightarrow> mid (rest ! j) = mid (ms ! j))
           \<and> (mid (ms ! j) = None \<longrightarrow> (\<exists>i. n \<le> i \<and> i < k \<and> mid (rest ! j) = Some (uuid4 i)))"
      by simp_all
    have "mtype (ms' ! j) = mtype ((m # ms) ! j) \<and> content (ms' ! j) = content ((m # ms) ! j)
           \<and> (mid ((m # ms) ! j) \<noteq> None \<longrightarrow> mid (ms' ! j) = mid ((m # ms) ! j))
           \<and> (mid ((m # ms) ! j) = None \<longrightarrow> (\<exists>i. n \<le> i \<and> i < n' \<and> mid (ms' ! j) = Some (uuid4 i)))"
      if j: "j < length (m # ms)" for j
    proof (cases j)
      case 0
      with Some show ?thesis by (simp add: ms')
    next
      case (Suc j')
      with j have j': "j' < length ms" by simp
      with pos Suc show ?thesis by (simp add: ms' n')
    qed
    with len le n' show ?thesis by (simp add: ms')
  qed
qed

lemma assign_ids_no_remove:
  assumes "assign_ids uuid4 n ms = (ms', n')" "\<forall>m\<in>set ms. mtype m \<noteq> Remove"
  shows "\<forall>m\<in>set ms'. mtype m \<noteq> Remove"
proof
  fix m
  assume "m \<in> set ms'"
  then obtain j where j: "j < length ms'" "ms' ! j = m" by (auto simp: in_set_conv_nth)
  from assign_ids_spec [OF assms(1)] j have "j < length ms" "mtype m = mtype (ms ! j)"
    by auto
  with assms(2) show "mtype m \<noteq> Remove" by (metis nth_mem)
qed

text \<open>An update without removals always merges, and this is what comes out.\<close>

lemma add_messages_no_remove:
  assumes l: "assign_ids uuid4 n left = (left', n1)"
    and r: "assign_ids uuid4 n1 right = (right', n2)"
    and nr: "\<forall>m\<in>set right. mtype m \<noteq> Remove"
  shows "\<exists>merged extra.
           add_messages uuid4 n left right = (Inr merged, n2)
           \<and> map mid merged = map mid left' @ extra
           \<and> distinct extra
           \<and> set extra = mid ` set right' - mid ` set left'
           \<and> (\<forall>j<length left'. mid (left' ! j) \<notin> mid ` set right' \<longrightarrow> merged ! j = left' ! j)
           \<and> (\<forall>m\<in>set right'. last (filter (\<lambda>x. mid x = mid m) right') \<in> set merged)
           \<and> set merged \<subseteq> set left' \<union> set right'
           \<and> (merged = left' @ right'
                \<longleftrightarrow> distinct (map mid right') \<and> mid ` set right' \<inter> mid ` set left' = {})"
proof -
  have nr': "\<forall>m\<in>set right'. mtype m \<noteq> Remove"
    using assign_ids_no_remove [OF r nr] .
  have none: "after_remove_all right' = None"
    using nr' by (rule after_remove_all_None)
  from merge_loop_no_remove [OF indexed_index_by_id nr', of left']
  obtain merged extra where
    loop: "merge_loop left' (index_by_id 0 left' Map.empty) {} right' = Inr (merged, {})"
    and mids: "map mid merged = map mid left' @ extra"
    and dist: "distinct extra"
    and ext: "set extra = mid ` set right' - mid ` set left'"
    and old: "\<forall>j<length left'. mid (left' ! j) \<notin> mid ` set right' \<longrightarrow> merged ! j = left' ! j"
    and lasts: "\<forall>m\<in>set right'. last (filter (\<lambda>x. mid x = mid m) right') \<in> set merged"
    and sub: "set merged \<subseteq> set left' \<union> set right'"
    by (elim exE conjE) (rule that)
  have res: "add_messages uuid4 n left right = (Inr merged, n2)"
    by (simp add: add_messages_def l r none loop)
  have iff: "merged = left' @ right'
               \<longleftrightarrow> distinct (map mid right') \<and> mid ` set right' \<inter> mid ` set left' = {}"
  proof
    assume "merged = left' @ right'"
    with mids have "extra = map mid right'" by simp
    with dist ext show "distinct (map mid right') \<and> mid ` set right' \<inter> mid ` set left' = {}"
      by auto
  next
    assume h: "distinct (map mid right') \<and> mid ` set right' \<inter> mid ` set left' = {}"
    then have "mid ` set right' \<inter> dom (index_by_id 0 left' Map.empty) = {}"
      by (simp add: dom_index_by_id)
    with h nr' have "merge_loop left' (index_by_id 0 left' Map.empty) {} right'
                      = Inr (left' @ right', {})"
      by (intro merge_loop_append) simp_all
    with loop show "merged = left' @ right'" by simp
  qed
  have "add_messages uuid4 n left right = (Inr merged, n2)
           \<and> map mid merged = map mid left' @ extra
           \<and> distinct extra
           \<and> set extra = mid ` set right' - mid ` set left'
           \<and> (\<forall>j<length left'. mid (left' ! j) \<notin> mid ` set right' \<longrightarrow> merged ! j = left' ! j)
           \<and> (\<forall>m\<in>set right'. last (filter (\<lambda>x. mid x = mid m) right') \<in> set merged)
           \<and> set merged \<subseteq> set left' \<union> set right'
           \<and> (merged = left' @ right'
                \<longleftrightarrow> distinct (map mid right') \<and> mid ` set right' \<inter> mid ` set left' = {})"
    by (intro conjI res mids dist ext old lasts sub iff)
  then show ?thesis by (intro exI)
qed

section \<open>Lemmas on the stages and the run\<close>

lemmas io_defs = bind_io_def return_io_def raise_io_def lift_io_def call_io_def emit_def
  with_io_def

lemmas example_defs = example_env_def example_world_def example_input_def example_reply_def
  replying_agent_def silent_agent_def cancelled_agent_def example_uuid4_def
  default_Context_def DEFAULT_MODEL_NAME_def DEFAULT_TEMPERATURE_def
  DEFAULT_MAX_CONCURRENT_RESEARCH_UNITS_def DEFAULT_MAX_RESEARCHER_ITERATIONS_def

lemmas run_deep_agent_defs = run_deep_agent_def enter_sandbox_def get_all_tools_def
  build_instructions_def create_research_subagent_def get_current_date_def static_tools_def
  str_int_def digit_char_def Let_def

text \<open>
  The state holds the query message alone. Without removals in the update, and with
  \<open>uuid4\<close> never repeating an id, the merge has more than one message exactly when the
  update holds a message that does not carry the query message's id.
\<close>

lemma add_messages_to_query:
  assumes hm: "mid hm = Some (uuid4 n0)"
    and inj: "inj uuid4"
    and nr: "\<forall>m\<in>set right. mtype m \<noteq> Remove"
    and res: "add_messages uuid4 (Suc n0) [hm] right = (Inr merged, n')"
  shows "1 < length merged \<longleftrightarrow> (\<exists>m\<in>set right. mid m \<noteq> mid hm)"
proof -
  have l: "assign_ids uuid4 (Suc n0) [hm] = ([hm], Suc n0)"
    using hm by simp
  obtain right' n2 where r: "assign_ids uuid4 (Suc n0) right = (right', n2)"
    by (cases "assign_ids uuid4 (Suc n0) right")
  from add_messages_no_remove [OF l r nr] obtain merged0 extra where
    res0: "add_messages uuid4 (Suc n0) [hm] right = (Inr merged0, n2)"
    and mids: "map mid merged0 = map mid [hm] @ extra"
    and ext: "set extra = mid ` set right' - mid ` set [hm]"
    by (elim exE conjE) (rule that)
  from res res0 have eq: "merged0 = merged" by simp
  from arg_cong [OF mids, of length] have len: "length merged = 1 + length extra"
    unfolding eq by simp
  from assign_ids_spec [OF r] have same_len: "length right' = length right"
    and pos: "\<forall>j<length right.
           (mid (right ! j) \<noteq> None \<longrightarrow> mid (right' ! j) = mid (right ! j))
           \<and> (mid (right ! j) = None \<longrightarrow> (\<exists>k. Suc n0 \<le> k \<and> mid (right' ! j) = Some (uuid4 k)))"
    by auto
  have other: "mid (right' ! j) \<noteq> mid hm \<longleftrightarrow> mid (right ! j) \<noteq> mid hm" if j: "j < length right" for j
  proof (cases "mid (right ! j)")
    case None
    with pos j obtain k where k: "Suc n0 \<le> k" "mid (right' ! j) = Some (uuid4 k)" by auto
    from k(1) have "k \<noteq> n0" by simp
    with inj have "uuid4 k \<noteq> uuid4 n0" by (simp add: inj_eq)
    with k(2) None hm show ?thesis by simp
  next
    case (Some x)
    with pos j show ?thesis by simp
  qed
  have "(\<exists>m\<in>set right'. mid m \<noteq> mid hm) \<longleftrightarrow> (\<exists>m\<in>set right. mid m \<noteq> mid hm)"
  proof
    assume "\<exists>m\<in>set right'. mid m \<noteq> mid hm"
    then obtain j where "j < length right'" "mid (right' ! j) \<noteq> mid hm"
      by (auto simp: in_set_conv_nth)
    with other same_len have "j < length right" "mid (right ! j) \<noteq> mid hm" by simp_all
    then show "\<exists>m\<in>set right. mid m \<noteq> mid hm" by (metis nth_mem)
  next
    assume "\<exists>m\<in>set right. mid m \<noteq> mid hm"
    then obtain j where "j < length right" "mid (right ! j) \<noteq> mid hm"
      by (auto simp: in_set_conv_nth)
    with other same_len have "j < length right'" "mid (right' ! j) \<noteq> mid hm" by simp_all
    then show "\<exists>m\<in>set right'. mid m \<noteq> mid hm" by (metis nth_mem)
  qed
  moreover have "extra \<noteq> [] \<longleftrightarrow> (\<exists>m\<in>set right'. mid m \<noteq> mid hm)"
  proof -
    have "extra \<noteq> [] \<longleftrightarrow> set extra \<noteq> {}" by simp
    also have "\<dots> \<longleftrightarrow> (\<exists>m\<in>set right'. mid m \<noteq> mid hm)"
      unfolding ext by auto
    finally show ?thesis .
  qed
  moreover have "1 < length merged \<longleftrightarrow> extra \<noteq> []"
    using len by (cases extra) simp_all
  ultimately show ?thesis by simp
qed

lemma add_messages_no_remove_Inr:
  assumes "\<forall>m\<in>set right. mtype m \<noteq> Remove"
  shows "\<exists>merged n'. add_messages uuid4 n left right = (Inr merged, n')"
proof -
  obtain left' n1 where l: "assign_ids uuid4 n left = (left', n1)"
    by (cases "assign_ids uuid4 n left")
  obtain right' n2 where r: "assign_ids uuid4 n1 right = (right', n2)"
    by (cases "assign_ids uuid4 n1 right")
  from add_messages_no_remove [OF l r assms] obtain merged where
    "add_messages uuid4 n left right = (Inr merged, n2)"
    by (elim exE conjE) (rule that)
  then show ?thesis by (intro exI)
qed

text \<open>\<open>run_deep_agent\<close> leaves the uuid counter alone and enters no stage.\<close>

lemma run_deep_agent_world:
  "uuid_counter (snd (run_deep_agent env state ctx w)) = uuid_counter w
   \<and> trace (snd (run_deep_agent env state ctx w))
       = trace w @ new_events (run_deep_agent env state ctx) w
   \<and> stages_entered (new_events (run_deep_agent env state ctx) w) = []"
  by (auto simp: new_events_def run_deep_agent_def enter_sandbox_def get_all_tools_def io_defs
        Let_def split: sum.splits prod.splits sandbox_entry.splits)


lemmas graph_defs = invoke_def build_graph_def add_node_def add_edge_def compile_def
  new_StateGraph_def successor_def START_def END_def apply_update_def merge_State_def
  empty_State_def prepare_research_def finalize_research_def get_query_def Let_def

text \<open>
  The world \<open>run_deep_agent\<close> starts in decides neither its result nor the events it adds.
\<close>

lemma run_deep_agent_any_world:
  "run_deep_agent env state ctx w1
     = (fst (run_deep_agent env state ctx w),
        w1\<lparr>trace := trace w1 @ new_events (run_deep_agent env state ctx) w\<rparr>)"
  by (auto simp: new_events_def run_deep_agent_def enter_sandbox_def get_all_tools_def io_defs
        Let_def split: sum.splits prod.splits sandbox_entry.splits)

lemma run_deep_agent_result:
  assumes "fst (run_deep_agent env state ctx w) = Inr u"
  shows "\<exists>agent r. ainvoke env agent (messages state) = Inr r
           \<and> u = \<lparr>u_messages = Some (case r of None \<Rightarrow> [] | Some ms \<Rightarrow> ms), u_query = None,
                  u_research_complete = Some True\<rparr>"
  using assms
  by (fastforce simp: run_deep_agent_def enter_sandbox_def get_all_tools_def io_defs Let_def
        split: sum.splits prod.splits sandbox_entry.splits)

text \<open>
  The run of the compiled deep graph on the input \<open>{query: q, messages: []}\<close>, by what
  \<open>run_deep_agent\<close> answers on the state that \<open>prepare_research\<close> leaves and by what the
  reducer makes of its result.
\<close>

lemma invoke_build_graph:
  assumes q: "q \<noteq> []"
    and lim: "4 \<le> recursion_limit"
    and hm: "hm = (HumanMessage q)\<lparr>mid := Some (env_uuid4 env (uuid_counter w))\<rparr>"
    and run: "fst (run_deep_agent env
                 \<lparr>messages = [hm], query = Some q, research_complete = Some False\<rparr> ctx w)
              = Inr \<lparr>u_messages = Some result, u_query = None, u_research_complete = Some True\<rparr>"
    and merge: "add_messages (env_uuid4 env) (Suc (uuid_counter w)) [hm] result = (Inr merged, n1)"
  shows "invoke (build_graph config) env ctx recursion_limit
           \<lparr>u_messages = Some [], u_query = Some q, u_research_complete = None\<rparr> w
         = (Inr \<lparr>messages = merged, query = Some q, research_complete = Some True\<rparr>,
            w\<lparr>trace := trace w @ [StageEntered ''prepare_research'', StageEntered ''run_deep_agent'']
                   @ new_events (run_deep_agent env
                       \<lparr>messages = [hm], query = Some q, research_complete = Some False\<rparr> ctx) w
                   @ [StageEntered ''finalize_research''],
              uuid_counter := n1\<rparr>)"
proof -
  from lim obtain j where "recursion_limit = 4 + j"
    using le_Suc_ex by blast
  then have k: "recursion_limit = Suc (Suc (Suc (Suc j)))" by simp
  have run': "\<And>w1. run_deep_agent env
                 \<lparr>messages = [hm], query = Some q, research_complete = Some False\<rparr> ctx w1
            = (Inr \<lparr>u_messages = Some result, u_query = None, u_research_complete = Some True\<rparr>,
               w1\<lparr>trace := trace w1 @ new_events (run_deep_agent env
                       \<lparr>messages = [hm], query = Some q, research_complete = Some False\<rparr> ctx) w\<rparr>)"
    by (subst run_deep_agent_any_world [where w = w]) (simp add: run)
  show ?thesis
    unfolding k
    by (simp add: graph_defs io_defs q add_messages_first add_messages_nothing hm [symmetric]
          run' merge)
qed

lemma invoke_build_graph_run_raises:
  assumes q: "q \<noteq> []"
    and hm: "hm = (HumanMessage q)\<lparr>mid := Some (env_uuid4 env (uuid_counter w))\<rparr>"
    and run: "fst (run_deep_agent env
                 \<lparr>messages = [hm], query = Some q, research_complete = Some False\<rparr> ctx w)
              = Inl e"
  shows "\<exists>e'. fst (invoke (build_graph config) env ctx recursion_limit
           \<lparr>u_messages = Some [], u_query = Some q, u_research_complete = None\<rparr> w) = Inl e'"
proof -
  have run': "\<And>w1. run_deep_agent env
                 \<lparr>messages = [hm], query = Some q, research_complete = Some False\<rparr> ctx w1
            = (Inl e,
               w1\<lparr>trace := trace w1 @ new_events (run_deep_agent env
                       \<lparr>messages = [hm], query = Some q, research_complete = Some False\<rparr> ctx) w\<rparr>)"
    by (subst run_deep_agent_any_world [where w = w]) (simp add: run)
  have "recursion_limit = 0 \<or> recursion_limit = Suc 0
          \<or> (\<exists>k. recursion_limit = Suc (Suc k))"
    by (cases recursion_limit; cases "recursion_limit - 1") auto
  then show ?thesis
    by (elim disjE exE)
      (simp_all add: graph_defs io_defs q add_messages_first add_messages_nothing
         hm [symmetric] run')
qed

lemma invoke_build_graph_merge_raises:
  assumes q: "q \<noteq> []"
    and hm: "hm = (HumanMessage q)\<lparr>mid := Some (env_uuid4 env (uuid_counter w))\<rparr>"
    and run: "fst (run_deep_agent env
                 \<lparr>messages = [hm], query = Some q, research_complete = Some False\<rparr> ctx w)
              = Inr \<lparr>u_messages = Some result, u_query = None, u_research_complete = Some True\<rparr>"
    and merge: "add_messages (env_uuid4 env) (Suc (uuid_counter w)) [hm] result = (Inl e, n1)"
  shows "\<exists>e'. fst (invoke (build_graph config) env ctx recursion_limit
           \<lparr>u_messages = Some [], u_query = Some q, u_research_complete = None\<rparr> w) = Inl e'"
proof -
  have run': "\<And>w1. run_deep_agent env
                 \<lparr>messages = [hm], query = Some q, research_complete = Some False\<rparr> ctx w1
            = (Inr \<lparr>u_messages = Some result, u_query = None, u_research_complete = Some True\<rparr>,
               w1\<lparr>trace := trace w1 @ new_events (run_deep_agent env
                       \<lparr>messages = [hm], query = Some q, research_complete = Some False\<rparr> ctx) w\<rparr>)"
    by (subst run_deep_agent_any_world [where w = w]) (simp add: run)
  have "recursion_limit = 0 \<or> recursion_limit = Suc 0
          \<or> (\<exists>k. recursion_limit = Suc (Suc k))"
    by (cases recursion_limit; cases "recursion_limit - 1") auto
  then show ?thesis
    by (elim disjE exE)
      (simp_all add: graph_defs io_defs q add_messages_first add_messages_nothing
         hm [symmetric] run' merge)
qed

text \<open>Below a limit of four the run of the three stages does not return a State.\<close>

lemma invoke_build_graph_small_limit:
  assumes q: "q \<noteq> []" and lim: "recursion_limit < 4"
  shows "\<exists>e. fst (invoke (build_graph config) env ctx recursion_limit
           \<lparr>u_messages = Some [], u_query = Some q, u_research_complete = None\<rparr> w) = Inl e"
proof -
  have "recursion_limit = 0 \<or> recursion_limit = Suc 0
          \<or> recursion_limit = Suc (Suc 0) \<or> recursion_limit = Suc (Suc (Suc 0))"
    using lim by arith
  then show ?thesis
    by (elim disjE)
      (auto simp: graph_defs io_defs q add_messages_first add_messages_nothing
         split: prod.splits sum.splits option.splits)
qed

text \<open>Whether a formatted text raises depends on which fields are given, not on their values.\<close>

lemma isl_case_sum:
  "isl (case x of Inl e \<Rightarrow> Inl e | Inr r \<Rightarrow> Inr (f r)) = isl x"
  by (cases x) simp_all

lemma format_template_isl:
  "dom kw = dom kw' \<Longrightarrow> isl (format_template kw t) = isl (format_template kw' t)"
proof (induction t)
  case Nil
  then show ?case by simp
next
  case (Cons seg t)
  show ?case
  proof (cases seg)
    case (Text s)
    with Cons show ?thesis by (simp add: isl_case_sum)
  next
    case (Field f)
    from Cons.prems have "kw f = None \<longleftrightarrow> kw' f = None" by (metis domIff)
    with Cons Field show ?thesis by (cases "kw f"; cases "kw' f") (simp_all add: isl_case_sum)
  qed
qed

lemma build_instructions_isl:
  "isl (build_instructions env c i) = isl (build_instructions env c' i')"
proof -
  have "isl (format_template
             [''max_concurrent_research_units'' \<mapsto> str_int c,
              ''max_researcher_iterations'' \<mapsto> str_int i]
             (SUBAGENT_DELEGATION_INSTRUCTIONS env))
        = isl (format_template
             [''max_concurrent_research_units'' \<mapsto> str_int c',
              ''max_researcher_iterations'' \<mapsto> str_int i']
             (SUBAGENT_DELEGATION_INSTRUCTIONS env))"
    by (rule format_template_isl) simp
  then show ?thesis
    by (simp add: build_instructions_def isl_case_sum)
qed

text \<open>
  The agents \<open>run_deep_agent\<close> constructs, by what the instructions come out as: none
  when they raise; otherwise the same agents for every text, apart from the text.
\<close>

lemma created_agents_by_instructions:
  "created_agents (new_events (run_deep_agent env state ctx) w)
     = (case build_instructions env (max_concurrent_research_units ctx)
               (max_researcher_iterations ctx) of
          Inl e \<Rightarrow> []
        | Inr instructions \<Rightarrow>
            (case mcp_get_tools env of
               Inl e \<Rightarrow> []
             | Inr mcp_tools \<Rightarrow>
                 (case create_research_subagent env (get_current_date env)
                         (mcp_tools @ static_tools) of
                    Inl e \<Rightarrow> []
                  | Inr sub \<Rightarrow>
                      (case init_chat_model env (model_name ctx) (temperature ctx) of
                         Inl e \<Rightarrow> []
                       | Inr model \<Rightarrow>
                           (case create_sandbox env ''daytona'' ''scripts/sandbox_setup.sh'' of
                              Entered backend \<Rightarrow>
                                [\<lparr>da_model = model, da_tools = mcp_tools @ static_tools,
                                  da_system_prompt = instructions,
                                  da_middleware = agent_middleware,
                                  da_subagents = [sub],
                                  da_backend = \<lparr>default = backend, routes = []\<rparr>\<rparr>]
                            | _ \<Rightarrow> [])))))"
  by (auto simp: new_events_def run_deep_agent_def enter_sandbox_def get_all_tools_def
        io_defs Let_def split: sum.splits prod.splits sandbox_entry.splits)





lemma stages_entered_append:
  "stages_entered (xs @ ys) = stages_entered xs @ stages_entered ys"
  by (induction xs rule: stages_entered.induct) simp_all

text \<open>
  What a returned State of the run on \<open>{query: q, messages: []}\<close> tells: the limit was at
  least four, the stage \<open>run_deep_agent\<close> returned the agent's result, and the reducer
  merged it into the query message.
\<close>

lemma invoke_build_graph_returns:
  assumes q: "q \<noteq> []"
    and hm: "hm = (HumanMessage q)\<lparr>mid := Some (env_uuid4 env (uuid_counter w))\<rparr>"
    and inv: "invoke (build_graph config) env ctx recursion_limit
                \<lparr>u_messages = Some [], u_query = Some q, u_research_complete = None\<rparr> w
              = (Inr final, w')"
  shows "\<exists>agent r n1.
           4 \<le> recursion_limit
           \<and> ainvoke env agent [hm] = Inr r
           \<and> add_messages (env_uuid4 env) (Suc (uuid_counter w)) [hm]
               (case r of None \<Rightarrow> [] | Some ms \<Rightarrow> ms) = (Inr (messages final), n1)
           \<and> final = \<lparr>messages = messages final, query = Some q,
                       research_complete = Some True\<rparr>
           \<and> w' = w\<lparr>trace := trace w
                      @ [StageEntered ''prepare_research'', StageEntered ''run_deep_agent'']
                      @ new_events (run_deep_agent env
                          \<lparr>messages = [hm], query = Some q, research_complete = Some False\<rparr>
                          ctx) w
                      @ [StageEntered ''finalize_research''],
                    uuid_counter := n1\<rparr>"
proof -
  let ?st = "\<lparr>messages = [hm], query = Some q, research_complete = Some False\<rparr>"
  from inv have ok: "fst (invoke (build_graph config) env ctx recursion_limit
                \<lparr>u_messages = Some [], u_query = Some q, u_research_complete = None\<rparr> w)
              = Inr final" by simp
  have lim: "4 \<le> recursion_limit"
  proof (rule ccontr)
    assume "\<not> 4 \<le> recursion_limit"
    then have "recursion_limit < 4" by simp
    from invoke_build_graph_small_limit [OF q this, of config env ctx w] ok
    show False by auto
  qed
  obtain u where run: "fst (run_deep_agent env ?st ctx w) = Inr u"
  proof (cases "fst (run_deep_agent env ?st ctx w)")
    case (Inl e)
    from invoke_build_graph_run_raises [OF q hm Inl, of config recursion_limit] ok
    show ?thesis by auto
  next
    case (Inr u)
    then show ?thesis by (rule that)
  qed
  from run_deep_agent_result [OF run] obtain agent r where
    ag: "ainvoke env agent (messages ?st) = Inr r"
    and u: "u = \<lparr>u_messages = Some (case r of None \<Rightarrow> [] | Some ms \<Rightarrow> ms), u_query = None,
                 u_research_complete = Some True\<rparr>"
    by (elim exE conjE) (rule that)
  let ?result = "case r of None \<Rightarrow> [] | Some ms \<Rightarrow> ms"
  have run': "fst (run_deep_agent env ?st ctx w)
                = Inr \<lparr>u_messages = Some ?result, u_query = None,
                       u_research_complete = Some True\<rparr>"
    using run u by simp
  obtain res n1 where m0: "add_messages (env_uuid4 env) (Suc (uuid_counter w)) [hm] ?result
                             = (res, n1)"
    by (cases "add_messages (env_uuid4 env) (Suc (uuid_counter w)) [hm] ?result")
  obtain merged where m1: "add_messages (env_uuid4 env) (Suc (uuid_counter w)) [hm] ?result
                             = (Inr merged, n1)"
  proof (cases res)
    case (Inl e)
    with m0 have "add_messages (env_uuid4 env) (Suc (uuid_counter w)) [hm] ?result
                    = (Inl e, n1)" by simp
    from invoke_build_graph_merge_raises [OF q hm run' this, of config recursion_limit] ok
    show ?thesis by auto
  next
    case (Inr merged)
    with m0 show ?thesis by (intro that) simp
  qed
  from invoke_build_graph [OF q lim hm run' m1, of config] inv
  have fin: "final = \<lparr>messages = merged, query = Some q, research_complete = Some True\<rparr>"
    and w': "w' = w\<lparr>trace := trace w
                      @ [StageEntered ''prepare_research'', StageEntered ''run_deep_agent'']
                      @ new_events (run_deep_agent env ?st ctx) w
                      @ [StageEntered ''finalize_research''],
                    uuid_counter := n1\<rparr>"
    by simp_all
  from fin have ms: "messages final = merged" by simp
  have ag': "ainvoke env agent [hm] = Inr r" using ag by simp
  have "4 \<le> recursion_limit
           \<and> ainvoke env agent [hm] = Inr r
           \<and> add_messages (env_uuid4 env) (Suc (uuid_counter w)) [hm]
               (case r of None \<Rightarrow> [] | Some ms \<Rightarrow> ms) = (Inr (messages final), n1)
           \<and> final = \<lparr>messages = messages final, query = Some q,
                       research_complete = Some True\<rparr>
           \<and> w' = w\<lparr>trace := trace w
                      @ [StageEntered ''prepare_research'', StageEntered ''run_deep_agent'']
                      @ new_events (run_deep_agent env ?st ctx) w
                      @ [StageEntered ''finalize_research''],
                    uuid_counter := n1\<rparr>"
    unfolding ms using lim ag' m1 fin w' by (intro conjI)
  then show ?thesis by (intro exI)
qed


lemma inj_example_uuid4: "inj example_uuid4"
proof (rule injI)
  fix x y assume "example_uuid4 x = example_uuid4 y"
  then have "replicate x (CHR ''+'') = replicate y (CHR ''+'')"
    by (simp add: example_uuid4_def)
  from arg_cong [OF this, of length] show "x = y" by simp
qed

text \<open>The runs of the example agents on the example input, at the smallest sufficient limit.\<close>

lemma replying_agent_invoke:
  "invoke (build_graph Map.empty) (example_env replying_agent) default_Context 4
     \<lparr>u_messages = Some [], u_query = Some ''What is LangGraph?'',
      u_research_complete = None\<rparr> example_world
   = (Inr \<lparr>messages = [\<lparr>mtype = Human, content = ''What is LangGraph?'',
                          mid = Some ''uuid''\<rparr>, example_reply],
           query = Some ''What is LangGraph?'', research_complete = Some True\<rparr>,
      \<lparr>trace = [StageEntered ''prepare_research'', StageEntered ''run_deep_agent'']
                @ new_events (run_deep_agent (example_env replying_agent)
                    \<lparr>messages = [\<lparr>mtype = Human, content = ''What is LangGraph?'',
                                   mid = Some ''uuid''\<rparr>],
                     query = Some ''What is LangGraph?'', research_complete = Some False\<rparr>
                    default_Context) example_world
                @ [StageEntered ''finalize_research''],
       uuid_counter = 1\<rparr>)"
proof -
  have run: "fst (run_deep_agent (example_env replying_agent)
               \<lparr>messages = [\<lparr>mtype = Human, content = ''What is LangGraph?'',
                              mid = Some ''uuid''\<rparr>],
                query = Some ''What is LangGraph?'', research_complete = Some False\<rparr>
               default_Context example_world)
             = Inr \<lparr>u_messages = Some [\<lparr>mtype = Human, content = ''What is LangGraph?'',
                              mid = Some ''uuid''\<rparr>, example_reply], u_query = None,
                    u_research_complete = Some True\<rparr>"
    by (simp add: run_deep_agent_defs io_defs example_defs)
  have merge: "add_messages (env_uuid4 (example_env replying_agent))
                 (Suc (uuid_counter example_world))
                 [\<lparr>mtype = Human, content = ''What is LangGraph?'', mid = Some ''uuid''\<rparr>]
                 [\<lparr>mtype = Human, content = ''What is LangGraph?'', mid = Some ''uuid''\<rparr>,
                  example_reply]
               = (Inr [\<lparr>mtype = Human, content = ''What is LangGraph?'',
                        mid = Some ''uuid''\<rparr>, example_reply], 1)"
    by (simp add: add_messages_def is_remove_all_def example_defs)
  have hm: "\<lparr>mtype = Human, content = ''What is LangGraph?'', mid = Some ''uuid''\<rparr>
              = (HumanMessage ''What is LangGraph?'')
                  \<lparr>mid := Some (env_uuid4 (example_env replying_agent)
                                  (uuid_counter example_world))\<rparr>"
    by (simp add: HumanMessage_def example_defs)
  have "invoke (build_graph Map.empty) (example_env replying_agent) default_Context 4
          \<lparr>u_messages = Some [], u_query = Some ''What is LangGraph?'',
           u_research_complete = None\<rparr> example_world
        = (Inr \<lparr>messages = [\<lparr>mtype = Human, content = ''What is LangGraph?'',
                          mid = Some ''uuid''\<rparr>, example_reply],
                query = Some ''What is LangGraph?'', research_complete = Some True\<rparr>,
           example_world\<lparr>trace := trace example_world
              @ [StageEntered ''prepare_research'', StageEntered ''run_deep_agent'']
              @ new_events (run_deep_agent (example_env replying_agent)
                    \<lparr>messages = [\<lparr>mtype = Human, content = ''What is LangGraph?'',
                                   mid = Some ''uuid''\<rparr>],
                     query = Some ''What is LangGraph?'', research_complete = Some False\<rparr>
                    default_Context) example_world
              @ [StageEntered ''finalize_research''],
             uuid_counter := 1\<rparr>)"
    by (rule invoke_build_graph [OF _ _ hm run merge]) simp_all
  then show ?thesis
    by (simp add: example_world_def)
qed

lemma silent_agent_invoke:
  "invoke (build_graph Map.empty) (example_env silent_agent) default_Context 25
     \<lparr>u_messages = Some [], u_query = Some ''What is LangGraph?'',
      u_research_complete = None\<rparr> example_world
   = (Inr \<lparr>messages = [\<lparr>mtype = Human, content = ''What is LangGraph?'',
                          mid = Some ''uuid''\<rparr>],
           query = Some ''What is LangGraph?'', research_complete = Some True\<rparr>,
      \<lparr>trace = [StageEntered ''prepare_research'', StageEntered ''run_deep_agent'']
                @ new_events (run_deep_agent (example_env silent_agent)
                    \<lparr>messages = [\<lparr>mtype = Human, content = ''What is LangGraph?'',
                                   mid = Some ''uuid''\<rparr>],
                     query = Some ''What is LangGraph?'', research_complete = Some False\<rparr>
                    default_Context) example_world
                @ [StageEntered ''finalize_research''],
       uuid_counter = 1\<rparr>)"
proof -
  have run: "fst (run_deep_agent (example_env silent_agent)
               \<lparr>messages = [\<lparr>mtype = Human, content = ''What is LangGraph?'',
                              mid = Some ''uuid''\<rparr>],
                query = Some ''What is LangGraph?'', research_complete = Some False\<rparr>
               default_Context example_world)
             = Inr \<lparr>u_messages = Some [], u_query = None,
                    u_research_complete = Some True\<rparr>"
    by (simp add: run_deep_agent_defs io_defs example_defs)
  have merge: "add_messages (env_uuid4 (example_env silent_agent))
                 (Suc (uuid_counter example_world))
                 [\<lparr>mtype = Human, content = ''What is LangGraph?'', mid = Some ''uuid''\<rparr>]
                 []
               = (Inr [\<lparr>mtype = Human, content = ''What is LangGraph?'',
                        mid = Some ''uuid''\<rparr>], 1)"
    by (simp add: add_messages_def is_remove_all_def example_defs)
  have hm: "\<lparr>mtype = Human, content = ''What is LangGraph?'', mid = Some ''uuid''\<rparr>
              = (HumanMessage ''What is LangGraph?'')
                  \<lparr>mid := Some (env_uuid4 (example_env silent_agent)
                                  (uuid_counter example_world))\<rparr>"
    by (simp add: HumanMessage_def example_defs)
  have "invoke (build_graph Map.empty) (example_env silent_agent) default_Context 25
          \<lparr>u_messages = Some [], u_query = Some ''What is LangGraph?'',
           u_research_complete = None\<rparr> example_world
        = (Inr \<lparr>messages = [\<lparr>mtype = Human, content = ''What is LangGraph?'',
                          mid = Some ''uuid''\<rparr>],
                query = Some ''What is LangGraph?'', research_complete = Some True\<rparr>,
           example_world\<lparr>trace := trace example_world
              @ [StageEntered ''prepare_research'', StageEntered ''run_deep_agent'']
              @ new_events (run_deep_agent (example_env silent_agent)
                    \<lparr>messages = [\<lparr>mtype = Human, content = ''What is LangGraph?'',
                                   mid = Some ''uuid''\<rparr>],
                     query = Some ''What is LangGraph?'', research_complete = Some False\<rparr>
                    default_Context) example_world
              @ [StageEntered ''finalize_research''],
             uuid_counter := 1\<rparr>)"
    by (rule invoke_build_graph [OF _ _ hm run merge]) simp_all
  then show ?thesis
    by (simp add: example_world_def)
qed

lemma env_uuid4_example_env: "env_uuid4 (example_env a) = example_uuid4"
  by (simp add: example_env_def)

lemma example_world_fields: "trace example_world = []" "uuid_counter example_world = 0"
  by (simp_all add: example_world_def)

lemma replying_agent_stage:
  "fst (run_deep_agent (example_env replying_agent)
          \<lparr>messages = [\<lparr>mtype = Human, content = ''What is LangGraph?'', mid = Some ''uuid''\<rparr>],
           query = Some ''What is LangGraph?'', research_complete = Some False\<rparr>
          default_Context example_world)
   = Inr \<lparr>u_messages = Some [\<lparr>mtype = Human, content = ''What is LangGraph?'', mid = Some ''uuid''\<rparr>, example_reply],
          u_query = None, u_research_complete = Some True\<rparr>"
  by (simp add: run_deep_agent_defs io_defs example_defs)

lemma replying_agent_invoke_limit_3:
  "fst (invoke (build_graph Map.empty) (example_env replying_agent) default_Context 3
          \<lparr>u_messages = Some [], u_query = Some ''What is LangGraph?'',
            u_research_complete = None\<rparr> example_world)
   = Inl GraphRecursionError"
  by (simp add: graph_defs io_defs run_deep_agent_defs example_defs add_messages_def
        is_remove_all_def HumanMessage_def eval_nat_numeral)

section \<open>Lemmas on the entry point\<close>

text \<open>
  On a reachable service none of whose assistants has a \<open>name\<close> entry in its metadata
  (such as any service filled by \<open>get_or_create_assistant\<close> alone), every call creates,
  and the store stays of that kind.
\<close>

lemma get_or_create_assistant_always_creates:
  assumes "reachable c" and "\<forall>a\<in>set (store c). (''name'', name) \<notin> set (a_metadata a)"
  shows "\<exists>a c'. get_or_create_assistant uuid4 name graph config context c = (Inr a, c')
                 \<and> store c' = store c @ [a] \<and> a_name a = name \<and> a_metadata a = []
                 \<and> reachable c'
                 \<and> logged c' = logged c @ [Creating_new_assistant name]"
proof -
  have "filter (\<lambda>a. set [(''name'', name)] \<subseteq> set (a_metadata a)) (rev (store c)) = []"
    using assms(2) by (simp add: filter_empty_conv)
  then show ?thesis
    using assms(1)
    by (simp add: get_or_create_assistant_def assistants_search_def assistants_create_def
          logger_info_def Let_def)
qed

section \<open>Properties of \<open>prepare_research\<close>\<close>

text \<open>
  C10 as stated fails in one corner: when the input's messages already are the single
  message \<open>HumanMessage(query)\<close>, the update's messages are that one-element list
  although the input's messages are not empty.
\<close>

theorem prepare_research_corner:
  "u_messages (prepare_research
      \<lparr>messages = [HumanMessage ''What is LangGraph?''], query = Some ''What is LangGraph?'',
       research_complete = None\<rparr> default_Context)
     = Some [HumanMessage ''What is LangGraph?'']
   \<and> messages \<lparr>messages = [HumanMessage ''What is LangGraph?''],
                query = Some ''What is LangGraph?'', research_complete = None\<rparr> \<noteq> []"
  by (simp add: prepare_research_def get_query_def)

text \<open>
  C10, amended. For every input State: if the query field holds a non-empty text and the
  messages are empty, the update's messages are \<open>[HumanMessage(query)]\<close>; if the query
  field is absent or empty, or the messages are not empty, the update's messages are the
  input's messages unchanged. So, for a query field holding \<open>q\<close>, the update's messages
  are \<open>[HumanMessage(q)]\<close> if and only if \<open>q\<close> is non-empty and the messages are empty,
  or the input's messages already are \<open>[HumanMessage(q)]\<close>. In all cases the update sets
  \<open>research_complete\<close> to false, and it holds no query.
\<close>

theorem prepare_research_update:
  "(query state = Some q \<and> q \<noteq> [] \<and> messages state = []
      \<longrightarrow> u_messages (prepare_research state ctx) = Some [HumanMessage q])
   \<and> (query state = None \<or> query state = Some [] \<or> messages state \<noteq> []
      \<longrightarrow> u_messages (prepare_research state ctx) = Some (messages state))
   \<and> (query state = Some q
      \<longrightarrow> (u_messages (prepare_research state ctx) = Some [HumanMessage q]
            \<longleftrightarrow> (q \<noteq> [] \<and> messages state = []) \<or> messages state = [HumanMessage q]))
   \<and> u_research_complete (prepare_research state ctx) = Some False
   \<and> u_query (prepare_research state ctx) = None"
  by (auto simp: prepare_research_def get_query_def Let_def)

theorem prepare_research_update_witness:
  "u_messages (prepare_research
      \<lparr>messages = [], query = Some ''What is LangGraph?'', research_complete = None\<rparr>
      default_Context) = Some [HumanMessage ''What is LangGraph?'']
   \<and> u_messages (prepare_research
      \<lparr>messages = [example_reply], query = Some ''What is LangGraph?'',
       research_complete = None\<rparr>
      default_Context) = Some [example_reply]
   \<and> u_messages (prepare_research
      \<lparr>messages = [], query = Some [], research_complete = None\<rparr> default_Context) = Some []
   \<and> u_messages (prepare_research
      \<lparr>messages = [], query = None, research_complete = None\<rparr> default_Context) = Some []
   \<and> u_messages (prepare_research
      \<lparr>messages = [HumanMessage ''What is LangGraph?''], query = Some ''What is LangGraph?'',
       research_complete = None\<rparr> default_Context)
     = Some [HumanMessage ''What is LangGraph?'']"
  using prepare_research_update
          [of "\<lparr>messages = [], query = Some ''What is LangGraph?'', research_complete = None\<rparr>"
              "''What is LangGraph?''" default_Context]
        prepare_research_update
          [of "\<lparr>messages = [example_reply], query = Some ''What is LangGraph?'',
                research_complete = None\<rparr>" "''What is LangGraph?''" default_Context]
        prepare_research_update
          [of "\<lparr>messages = [], query = Some [], research_complete = None\<rparr>" "[]"
              default_Context]
        prepare_research_update
          [of "\<lparr>messages = [], query = None, research_complete = None\<rparr>" "[]"
              default_Context]
        prepare_research_update
          [of "\<lparr>messages = [HumanMessage ''What is LangGraph?''],
                query = Some ''What is LangGraph?'', research_complete = None\<rparr>"
              "''What is LangGraph?''" default_Context]
  by (simp add: example_reply_def HumanMessage_def)

section \<open>The merge of a partial update\<close>

text \<open>
  C6. For every State and every partial update, a field absent from the update is
  unchanged by the merge. In particular the update of \<open>finalize_research\<close>, which holds
  only \<open>research_complete\<close>, always merges, and leaves \<open>messages\<close> and \<open>query\<close> exactly as
  they were.
\<close>

theorem merge_State_absent_fields:
  "(merge_State uuid4 n state u = (Inr state', n') \<longrightarrow>
      (u_messages u = None \<longrightarrow> messages state' = messages state)
      \<and> (u_query u = None \<longrightarrow> query state' = query state)
      \<and> (u_research_complete u = None
           \<longrightarrow> research_complete state' = research_complete state))
   \<and> merge_State uuid4 n state (finalize_research state ctx)
       = (Inr (state\<lparr>research_complete := Some True\<rparr>), n)
   \<and> messages (state\<lparr>research_complete := Some True\<rparr>) = messages state
   \<and> query (state\<lparr>research_complete := Some True\<rparr>) = query state"
  by (auto simp: merge_State_def finalize_research_def Let_def
           split: option.splits sum.splits prod.splits)

theorem merge_State_absent_fields_witness:
  "merge_State example_uuid4 0
     \<lparr>messages = [example_reply], query = Some ''What is LangGraph?'',
      research_complete = Some False\<rparr>
     \<lparr>u_messages = None, u_query = None, u_research_complete = Some True\<rparr>
   = (Inr \<lparr>messages = [example_reply], query = Some ''What is LangGraph?'',
           research_complete = Some True\<rparr>, 0)
   \<and> u_messages \<lparr>u_messages = None, u_query = None, u_research_complete = Some True\<rparr> = None
   \<and> messages \<lparr>messages = [example_reply], query = Some ''What is LangGraph?'',
           research_complete = Some True\<rparr> = [example_reply]"
  using merge_State_absent_fields
          [of example_uuid4 0
              "\<lparr>messages = [example_reply], query = Some ''What is LangGraph?'',
                research_complete = Some False\<rparr>"
              "\<lparr>u_messages = None, u_query = None, u_research_complete = Some True\<rparr>"
              "\<lparr>messages = [example_reply], query = Some ''What is LangGraph?'',
                research_complete = Some True\<rparr>" 0 default_Context]
  by (simp add: merge_State_def)

section \<open>Who writes the completion flag\<close>

text \<open>
  C4 as stated fails: \<open>run_deep_agent\<close>, the stage before \<open>finalize_research\<close>, already
  returns an update whose \<open>research_complete\<close> is true. Here the agent answers with the
  conversation and one reply.
\<close>

theorem run_deep_agent_sets_research_complete:
  "fst (run_deep_agent (example_env replying_agent)
          \<lparr>messages = [], query = Some ''What is LangGraph?'', research_complete = Some False\<rparr>
          default_Context example_world)
   = Inr \<lparr>u_messages = Some [example_reply], u_query = None, u_research_complete = Some True\<rparr>"
  by (simp add: run_deep_agent_defs io_defs example_defs)

text \<open>
  C4, amended. \<open>State\<close> declares no default for \<open>research_complete\<close>, so the flag is
  absent until a stage writes it. \<open>prepare_research\<close> always writes false;
  \<open>run_deep_agent\<close>, whenever it returns an update, writes true; \<open>finalize_research\<close>
  always writes true. So the flag is set to true by the last two stages, and by no stage
  before \<open>run_deep_agent\<close>.
\<close>

theorem research_complete_writers:
  "research_complete empty_State = None
   \<and> u_research_complete (prepare_research state ctx) = Some False
   \<and> (run_deep_agent env state ctx w = (Inr u, w') \<longrightarrow> u_research_complete u = Some True)
   \<and> u_research_complete (finalize_research state ctx) = Some True"
proof -
  have "u_research_complete u = Some True" if "run_deep_agent env state ctx w = (Inr u, w')"
  proof -
    from that have "fst (run_deep_agent env state ctx w) = Inr u" by simp
    from run_deep_agent_result [OF this] show ?thesis by auto
  qed
  then show ?thesis
    by (simp add: empty_State_def prepare_research_def finalize_research_def Let_def)
qed

theorem research_complete_writers_witness:
  "run_deep_agent (example_env silent_agent) empty_State default_Context example_world
     = (Inr \<lparr>u_messages = Some [], u_query = None, u_research_complete = Some True\<rparr>,
        snd (run_deep_agent (example_env silent_agent) empty_State default_Context example_world))
   \<and> u_research_complete
        \<lparr>u_messages = Some [], u_query = None, u_research_complete = Some True\<rparr> = Some True"
  using research_complete_writers
          [of empty_State default_Context "example_env silent_agent" example_world
              "\<lparr>u_messages = Some [], u_query = None, u_research_complete = Some True\<rparr>"
              "snd (run_deep_agent (example_env silent_agent) empty_State default_Context
                      example_world)"]
  by (simp add: run_deep_agent_defs io_defs example_defs empty_State_def)

section \<open>The sandbox and \<open>run_deep_agent\<close>\<close>




section \<open>Which limits the Context configures\<close>

text \<open>
  C2 as stated fails: the model-call and tool-call ceilings are the constant 10 of the
  source, whatever the Context says. For a Context with the limits 7 and 5 the agent is
  built with \<open>thread_limit=10\<close> for model calls and for tool calls.
\<close>

theorem call_ceilings_are_constants:
  "map da_middleware
     (created_agents
        (new_events
           (run_deep_agent (example_env replying_agent) empty_State
              \<lparr>model_name = ''gpt-4o-mini'', temperature = 1 / 10,
               max_concurrent_research_units = 7, max_researcher_iterations = 5\<rparr>)
           example_world))
   = [ModelCallLimitMiddleware (Some 10) None, ToolCallLimitMiddleware (Some 10) None,
      ModelFallbackMiddleware ''gpt-4o-mini'' [], ModelRetryMiddleware,
      ToolRetryMiddleware] # []"
  by (simp add: new_events_def run_deep_agent_defs io_defs example_defs empty_State_def
        agent_middleware_def)

text \<open>
  C2, amended. Every agent that \<open>run_deep_agent\<close> constructs, for every Context, is
  constructed from these arguments and no others: the model made from the Context's
  \<open>model_name\<close> and \<open>temperature\<close>; the MCP tools followed by the static tools; as system
  prompt the text \<open>_build_instructions\<close> makes of the Context's
  \<open>max_concurrent_research_units\<close> and \<open>max_researcher_iterations\<close>; the middleware list
  with a model-call limit and a tool-call limit of \<open>thread_limit=10\<close> each (no
  \<open>run_limit\<close>), the fallback model \<open>gpt-4o-mini\<close> and the two retry middlewares; the one
  research sub-agent; and the sandbox backend. So the two call ceilings are constants,
  per thread, not configurable through the Context; and changing the Context's two limits
  changes nothing of the constructed agent but its system prompt. With a delegation
  prompt of the shape text, concurrency field, text, iteration field, text, that prompt
  shows the two numbers in decimal between the texts.
\<close>

theorem agent_limits:
  "(\<forall>a\<in>set (created_agents (new_events (run_deep_agent env state ctx) w)).
      \<exists>instructions mcp_tools sub model backend.
        build_instructions env (max_concurrent_research_units ctx)
          (max_researcher_iterations ctx) = Inr instructions
        \<and> mcp_get_tools env = Inr mcp_tools
        \<and> create_research_subagent env (get_current_date env) (mcp_tools @ static_tools)
            = Inr sub
        \<and> init_chat_model env (model_name ctx) (temperature ctx) = Inr model
        \<and> create_sandbox env ''daytona'' ''scripts/sandbox_setup.sh'' = Entered backend
        \<and> a = \<lparr>da_model = model, da_tools = mcp_tools @ static_tools,
                da_system_prompt = instructions,
                da_middleware =
                  [ModelCallLimitMiddleware (Some 10) None,
                   ToolCallLimitMiddleware (Some 10) None,
                   ModelFallbackMiddleware ''gpt-4o-mini'' [], ModelRetryMiddleware,
                   ToolRetryMiddleware],
                da_subagents = [sub],
                da_backend = \<lparr>default = backend, routes = []\<rparr>\<rparr>)
   \<and> map (\<lambda>a. a\<lparr>da_system_prompt := []\<rparr>)
        (created_agents (new_events
           (run_deep_agent env state
              (ctx\<lparr>max_concurrent_research_units := c, max_researcher_iterations := i\<rparr>)) w))
     = map (\<lambda>a. a\<lparr>da_system_prompt := []\<rparr>)
        (created_agents (new_events (run_deep_agent env state ctx) w))
   \<and> (SUBAGENT_DELEGATION_INSTRUCTIONS env
         = [Text t1, Field ''max_concurrent_research_units'', Text t2,
            Field ''max_researcher_iterations'', Text t3]
      \<longrightarrow> build_instructions env max_concurrent max_iterations
            = Inr (RESEARCH_WORKFLOW_INSTRUCTIONS env @ [CHR 0x0A, CHR 0x0A]
                   @ replicate 80 (CHR ''='') @ [CHR 0x0A, CHR 0x0A]
                   @ t1 @ str_int max_concurrent @ t2 @ str_int max_iterations @ t3))"
proof (intro conjI ballI impI)
  fix a
  assume "a \<in> set (created_agents (new_events (run_deep_agent env state ctx) w))"
  then show "\<exists>instructions mcp_tools sub model backend.
        build_instructions env (max_concurrent_research_units ctx)
          (max_researcher_iterations ctx) = Inr instructions
        \<and> mcp_get_tools env = Inr mcp_tools
        \<and> create_research_subagent env (get_current_date env) (mcp_tools @ static_tools)
            = Inr sub
        \<and> init_chat_model env (model_name ctx) (temperature ctx) = Inr model
        \<and> create_sandbox env ''daytona'' ''scripts/sandbox_setup.sh'' = Entered backend
        \<and> a = \<lparr>da_model = model, da_tools = mcp_tools @ static_tools,
                da_system_prompt = instructions,
                da_middleware =
                  [ModelCallLimitMiddleware (Some 10) None,
                   ToolCallLimitMiddleware (Some 10) None,
                   ModelFallbackMiddleware ''gpt-4o-mini'' [], ModelRetryMiddleware,
                   ToolRetryMiddleware],
                da_subagents = [sub],
                da_backend = \<lparr>default = backend, routes = []\<rparr>\<rparr>"
    unfolding created_agents_by_instructions
    by (auto simp: agent_middleware_def split: sum.splits sandbox_entry.splits)
next
  have "isl (build_instructions env c i)
          = isl (build_instructions env (max_concurrent_research_units ctx)
                   (max_researcher_iterations ctx))"
    by (rule build_instructions_isl)
  then show "map (\<lambda>a. a\<lparr>da_system_prompt := []\<rparr>)
        (created_agents (new_events
           (run_deep_agent env state
              (ctx\<lparr>max_concurrent_research_units := c, max_researcher_iterations := i\<rparr>)) w))
     = map (\<lambda>a. a\<lparr>da_system_prompt := []\<rparr>)
        (created_agents (new_events (run_deep_agent env state ctx) w))"
    unfolding created_agents_by_instructions
    by (cases "build_instructions env c i";
        cases "build_instructions env (max_concurrent_research_units ctx)
                 (max_researcher_iterations ctx)")
       (simp_all split: sum.splits sandbox_entry.splits)
next
  assume "SUBAGENT_DELEGATION_INSTRUCTIONS env
         = [Text t1, Field ''max_concurrent_research_units'', Text t2,
            Field ''max_researcher_iterations'', Text t3]"
  then show "build_instructions env max_concurrent max_iterations
            = Inr (RESEARCH_WORKFLOW_INSTRUCTIONS env @ [CHR 0x0A, CHR 0x0A]
                   @ replicate 80 (CHR ''='') @ [CHR 0x0A, CHR 0x0A]
                   @ t1 @ str_int max_concurrent @ t2 @ str_int max_iterations @ t3)"
    by (simp add: build_instructions_def)
qed

theorem agent_limits_witness:
  "map da_middleware
     (created_agents
        (new_events
           (run_deep_agent (example_env replying_agent) empty_State
              \<lparr>model_name = ''gpt-4o-mini'', temperature = 1 / 10,
               max_concurrent_research_units = 7, max_researcher_iterations = 5\<rparr>)
           example_world))
   = [ModelCallLimitMiddleware (Some 10) None, ToolCallLimitMiddleware (Some 10) None,
      ModelFallbackMiddleware ''gpt-4o-mini'' [], ModelRetryMiddleware,
      ToolRetryMiddleware] # []
   \<and> map da_system_prompt
     (created_agents
        (new_events
           (run_deep_agent (example_env replying_agent) empty_State
              \<lparr>model_name = ''gpt-4o-mini'', temperature = 1 / 10,
               max_concurrent_research_units = 7, max_researcher_iterations = 5\<rparr>)
           example_world))
   = [''Plan, delegate, synthesize.'' @ [CHR 0x0A, CHR 0x0A]
      @ replicate 80 (CHR ''='') @ [CHR 0x0A, CHR 0x0A]
      @ ''Use at most 7 parallel sub-agents; stop after 5 rounds.'']
   \<and> map da_system_prompt
     (created_agents
        (new_events
           (run_deep_agent (example_env replying_agent) empty_State
              \<lparr>model_name = ''gpt-4o-mini'', temperature = 1 / 10,
               max_concurrent_research_units = 1, max_researcher_iterations = 2\<rparr>)
           example_world))
   = [''Plan, delegate, synthesize.'' @ [CHR 0x0A, CHR 0x0A]
      @ replicate 80 (CHR ''='') @ [CHR 0x0A, CHR 0x0A]
      @ ''Use at most 1 parallel sub-agents; stop after 2 rounds.'']
   \<and> map (\<lambda>a. a\<lparr>da_system_prompt := []\<rparr>)
     (created_agents
        (new_events
           (run_deep_agent (example_env replying_agent) empty_State
              \<lparr>model_name = ''gpt-4o-mini'', temperature = 1 / 10,
               max_concurrent_research_units = 1, max_researcher_iterations = 2\<rparr>)
           example_world))
   = map (\<lambda>a. a\<lparr>da_system_prompt := []\<rparr>)
     (created_agents
        (new_events
           (run_deep_agent (example_env replying_agent) empty_State
              \<lparr>model_name = ''gpt-4o-mini'', temperature = 1 / 10,
               max_concurrent_research_units = 7, max_researcher_iterations = 5\<rparr>)
           example_world))
   \<and> build_instructions (example_env replying_agent) 7 5
       = Inr (''Plan, delegate, synthesize.'' @ [CHR 0x0A, CHR 0x0A]
              @ replicate 80 (CHR ''='') @ [CHR 0x0A, CHR 0x0A]
              @ ''Use at most 7 parallel sub-agents; stop after 5 rounds.'')"
  using agent_limits
          [where env = "example_env replying_agent" and state = empty_State
             and ctx = "\<lparr>model_name = ''gpt-4o-mini'', temperature = 1 / 10,
                         max_concurrent_research_units = 7, max_researcher_iterations = 5\<rparr>"
             and w = example_world and c = 1 and i = 2
             and ?t1.0 = "''Use at most ''" and ?t2.0 = "'' parallel sub-agents; stop after ''"
             and ?t3.0 = "'' rounds.''" and max_concurrent = 7 and max_iterations = 5]
  by (simp add: new_events_def run_deep_agent_defs io_defs example_defs empty_State_def
        agent_middleware_def)

section \<open>How the two graphs merge messages\<close>





section \<open>The deep research graph, end to end\<close>

text \<open>
  C1 as stated fails: every stage can complete while the final messages hold nothing but
  the human query. \<open>run_deep_agent\<close> reads the agent's result with
  \<open>result.get("messages", [])\<close>; for a result without messages the three stages run in
  order, the flag ends true, and the only message is the query (with the id the reducer
  gave it).
\<close>

theorem silent_agent_run:
  "fst (invoke (build_graph Map.empty) (example_env silent_agent) default_Context 25
          example_input example_world)
   = Inr \<lparr>messages = [\<lparr>mtype = Human, content = ''What is LangGraph?'', mid = Some ''uuid''\<rparr>],
          query = Some ''What is LangGraph?'', research_complete = Some True\<rparr>
   \<and> stages_entered
       (trace (snd (invoke (build_graph Map.empty) (example_env silent_agent) default_Context
                      25 example_input example_world)))
     = [''prepare_research'', ''run_deep_agent'', ''finalize_research'']"
  by (simp add: example_input_def silent_agent_invoke stages_entered_append
        run_deep_agent_world)

text \<open>
  C1, amended. Take the run of the compiled graph on the input
  \<open>{query: q, messages: []}\<close> with a non-empty \<open>q\<close>, and let \<open>hm\<close> be the query message
  \<open>HumanMessage(content=q)\<close> with the id the reducer gives it.
  \<^item> Whenever the run returns a final State, the recursion limit was at least four, the
    stages entered are \<open>prepare_research\<close>, \<open>run_deep_agent\<close>, \<open>finalize_research\<close> in
    that order, \<open>research_complete\<close> is true, \<open>query\<close> is \<open>q\<close>, and the final messages
    are what the reducer \<open>add_messages\<close> makes of \<open>[hm]\<close> and the messages of the agent's
    result (none, for a result without messages). When \<open>uuid4\<close> never repeats an id and
    the result holds no \<open>RemoveMessage\<close>, the final messages hold an entry beyond the
    query message if and only if the agent's result holds a message that does not carry
    the id of \<open>hm\<close>.
  \<^item> The run does return a final State when the limit is at least four,
    \<open>run_deep_agent\<close> returns an update on the state that \<open>prepare_research\<close> leaves, and
    the update's messages hold no \<open>RemoveMessage\<close>.
  \<^item> With a limit below four the run raises instead of returning a State.
\<close>

theorem deep_graph_end_to_end:
  "(q \<noteq> [] \<and> hm = (HumanMessage q)\<lparr>mid := Some (env_uuid4 env (uuid_counter w))\<rparr>
     \<and> invoke (build_graph config) env ctx recursion_limit
           \<lparr>u_messages = Some [], u_query = Some q, u_research_complete = None\<rparr> w = (Inr final, w')
    \<longrightarrow> 4 \<le> recursion_limit
       \<and> stages_entered (drop (length (trace w)) (trace w'))
           = [''prepare_research'', ''run_deep_agent'', ''finalize_research'']
       \<and> research_complete final = Some True
       \<and> query final = Some q
       \<and> (\<exists>agent r n'.
             ainvoke env agent [hm] = Inr r
             \<and> add_messages (env_uuid4 env) (Suc (uuid_counter w)) [hm]
                 (case r of None \<Rightarrow> [] | Some ms \<Rightarrow> ms) = (Inr (messages final), n')
             \<and> (inj (env_uuid4 env)
                 \<and> (\<forall>m\<in>set (case r of None \<Rightarrow> [] | Some ms \<Rightarrow> ms). mtype m \<noteq> Remove)
                \<longrightarrow> (1 < length (messages final)
                      \<longleftrightarrow> (\<exists>m\<in>set (case r of None \<Rightarrow> [] | Some ms \<Rightarrow> ms).
                             mid m \<noteq> mid hm)))))
   \<and> (q \<noteq> [] \<and> hm = (HumanMessage q)\<lparr>mid := Some (env_uuid4 env (uuid_counter w))\<rparr>
     \<and> 4 \<le> recursion_limit
     \<and> fst (run_deep_agent env
              \<lparr>messages = [hm], query = Some q, research_complete = Some False\<rparr> ctx w)
         = Inr u
     \<and> u_messages u = Some result
     \<and> (\<forall>m\<in>set result. mtype m \<noteq> Remove)
      \<longrightarrow> (\<exists>final w'. invoke (build_graph config) env ctx recursion_limit
           \<lparr>u_messages = Some [], u_query = Some q, u_research_complete = None\<rparr> w = (Inr final, w')))
   \<and> (q \<noteq> [] \<and> recursion_limit < 4
      \<longrightarrow> (\<exists>e. fst (invoke (build_graph config) env ctx recursion_limit
           \<lparr>u_messages = Some [], u_query = Some q, u_research_complete = None\<rparr> w) = Inl e))"
proof -
  have a: "q \<noteq> [] \<and> hm = (HumanMessage q)\<lparr>mid := Some (env_uuid4 env (uuid_counter w))\<rparr>
     \<and> invoke (build_graph config) env ctx recursion_limit
           \<lparr>u_messages = Some [], u_query = Some q, u_research_complete = None\<rparr> w = (Inr final, w')
    \<longrightarrow> 4 \<le> recursion_limit
       \<and> stages_entered (drop (length (trace w)) (trace w'))
           = [''prepare_research'', ''run_deep_agent'', ''finalize_research'']
       \<and> research_complete final = Some True
       \<and> query final = Some q
       \<and> (\<exists>agent r n'.
             ainvoke env agent [hm] = Inr r
             \<and> add_messages (env_uuid4 env) (Suc (uuid_counter w)) [hm]
                 (case r of None \<Rightarrow> [] | Some ms \<Rightarrow> ms) = (Inr (messages final), n')
             \<and> (inj (env_uuid4 env)
                 \<and> (\<forall>m\<in>set (case r of None \<Rightarrow> [] | Some ms \<Rightarrow> ms). mtype m \<noteq> Remove)
                \<longrightarrow> (1 < length (messages final)
                      \<longleftrightarrow> (\<exists>m\<in>set (case r of None \<Rightarrow> [] | Some ms \<Rightarrow> ms).
                             mid m \<noteq> mid hm))))"
  proof
  assume h: "q \<noteq> [] \<and> hm = (HumanMessage q)\<lparr>mid := Some (env_uuid4 env (uuid_counter w))\<rparr>
     \<and> invoke (build_graph config) env ctx recursion_limit
           \<lparr>u_messages = Some [], u_query = Some q, u_research_complete = None\<rparr> w = (Inr final, w')"
  then have q: "q \<noteq> []"
    and hm: "hm = (HumanMessage q)\<lparr>mid := Some (env_uuid4 env (uuid_counter w))\<rparr>"
    and inv: "invoke (build_graph config) env ctx recursion_limit
           \<lparr>u_messages = Some [], u_query = Some q, u_research_complete = None\<rparr> w = (Inr final, w')"
    by simp_all
  let ?st = "\<lparr>messages = [hm], query = Some q, research_complete = Some False\<rparr>"
  from invoke_build_graph_returns [OF q hm inv] obtain agent r n1 where
    lim: "4 \<le> recursion_limit"
    and ag: "ainvoke env agent [hm] = Inr r"
    and merge: "add_messages (env_uuid4 env) (Suc (uuid_counter w)) [hm]
               (case r of None \<Rightarrow> [] | Some ms \<Rightarrow> ms) = (Inr (messages final), n1)"
    and fin: "final = \<lparr>messages = messages final, query = Some q,
                       research_complete = Some True\<rparr>"
    and w': "w' = w\<lparr>trace := trace w
                      @ [StageEntered ''prepare_research'', StageEntered ''run_deep_agent'']
                      @ new_events (run_deep_agent env ?st ctx) w
                      @ [StageEntered ''finalize_research''],
                    uuid_counter := n1\<rparr>"
    by (elim exE conjE) (rule that)
  have none: "stages_entered (new_events (run_deep_agent env ?st ctx) w) = []"
    by (simp add: run_deep_agent_world)
  have tr: "drop (length (trace w)) (trace w')
              = [StageEntered ''prepare_research'', StageEntered ''run_deep_agent'']
                @ new_events (run_deep_agent env ?st ctx) w
                @ [StageEntered ''finalize_research'']"
    by (subst w') simp
  have stages: "stages_entered (drop (length (trace w)) (trace w'))
           = [''prepare_research'', ''run_deep_agent'', ''finalize_research'']"
    unfolding tr by (simp add: stages_entered_append none)
  have rc: "research_complete final = Some True" by (subst fin) simp
  have qu: "query final = Some q" by (subst fin) simp
  have hmid: "mid hm = Some (env_uuid4 env (uuid_counter w))"
    by (simp add: hm HumanMessage_def)
  have more: "inj (env_uuid4 env)
                 \<and> (\<forall>m\<in>set (case r of None \<Rightarrow> [] | Some ms \<Rightarrow> ms). mtype m \<noteq> Remove)
                \<longrightarrow> (1 < length (messages final)
                      \<longleftrightarrow> (\<exists>m\<in>set (case r of None \<Rightarrow> [] | Some ms \<Rightarrow> ms).
                             mid m \<noteq> mid hm))"
  proof
    assume a: "inj (env_uuid4 env)
                 \<and> (\<forall>m\<in>set (case r of None \<Rightarrow> [] | Some ms \<Rightarrow> ms). mtype m \<noteq> Remove)"
    then have i: "inj (env_uuid4 env)"
      and nr: "\<forall>m\<in>set (case r of None \<Rightarrow> [] | Some ms \<Rightarrow> ms). mtype m \<noteq> Remove"
      by simp_all
    show "1 < length (messages final)
            \<longleftrightarrow> (\<exists>m\<in>set (case r of None \<Rightarrow> [] | Some ms \<Rightarrow> ms). mid m \<noteq> mid hm)"
      by (rule add_messages_to_query [OF hmid i nr merge])
  qed
  have "ainvoke env agent [hm] = Inr r
             \<and> add_messages (env_uuid4 env) (Suc (uuid_counter w)) [hm]
                 (case r of None \<Rightarrow> [] | Some ms \<Rightarrow> ms) = (Inr (messages final), n1)
             \<and> (inj (env_uuid4 env)
                 \<and> (\<forall>m\<in>set (case r of None \<Rightarrow> [] | Some ms \<Rightarrow> ms). mtype m \<noteq> Remove)
                \<longrightarrow> (1 < length (messages final)
                      \<longleftrightarrow> (\<exists>m\<in>set (case r of None \<Rightarrow> [] | Some ms \<Rightarrow> ms).
                             mid m \<noteq> mid hm)))"
    by (intro conjI ag merge more)
  then have ex: "\<exists>agent r n'.
             ainvoke env agent [hm] = Inr r
             \<and> add_messages (env_uuid4 env) (Suc (uuid_counter w)) [hm]
                 (case r of None \<Rightarrow> [] | Some ms \<Rightarrow> ms) = (Inr (messages final), n')
             \<and> (inj (env_uuid4 env)
                 \<and> (\<forall>m\<in>set (case r of None \<Rightarrow> [] | Some ms \<Rightarrow> ms). mtype m \<noteq> Remove)
                \<longrightarrow> (1 < length (messages final)
                      \<longleftrightarrow> (\<exists>m\<in>set (case r of None \<Rightarrow> [] | Some ms \<Rightarrow> ms).
                             mid m \<noteq> mid hm)))"
    by (intro exI)
  show "4 \<le> recursion_limit
       \<and> stages_entered (drop (length (trace w)) (trace w'))
           = [''prepare_research'', ''run_deep_agent'', ''finalize_research'']
       \<and> research_complete final = Some True
       \<and> query final = Some q
       \<and> (\<exists>agent r n'.
             ainvoke env agent [hm] = Inr r
             \<and> add_messages (env_uuid4 env) (Suc (uuid_counter w)) [hm]
                 (case r of None \<Rightarrow> [] | Some ms \<Rightarrow> ms) = (Inr (messages final), n')
             \<and> (inj (env_uuid4 env)
                 \<and> (\<forall>m\<in>set (case r of None \<Rightarrow> [] | Some ms \<Rightarrow> ms). mtype m \<noteq> Remove)
                \<longrightarrow> (1 < length (messages final)
                      \<longleftrightarrow> (\<exists>m\<in>set (case r of None \<Rightarrow> [] | Some ms \<Rightarrow> ms).
                             mid m \<noteq> mid hm))))"
    by (intro conjI lim stages rc qu ex)
  qed
  have c: "q \<noteq> [] \<and> hm = (HumanMessage q)\<lparr>mid := Some (env_uuid4 env (uuid_counter w))\<rparr>
     \<and> 4 \<le> recursion_limit
     \<and> fst (run_deep_agent env
              \<lparr>messages = [hm], query = Some q, research_complete = Some False\<rparr> ctx w)
         = Inr u
     \<and> u_messages u = Some result
     \<and> (\<forall>m\<in>set result. mtype m \<noteq> Remove)
      \<longrightarrow> (\<exists>final w'. invoke (build_graph config) env ctx recursion_limit
           \<lparr>u_messages = Some [], u_query = Some q, u_research_complete = None\<rparr> w = (Inr final, w'))"
  proof
  assume h: "q \<noteq> [] \<and> hm = (HumanMessage q)\<lparr>mid := Some (env_uuid4 env (uuid_counter w))\<rparr>
     \<and> 4 \<le> recursion_limit
     \<and> fst (run_deep_agent env
              \<lparr>messages = [hm], query = Some q, research_complete = Some False\<rparr> ctx w)
         = Inr u
     \<and> u_messages u = Some result
     \<and> (\<forall>m\<in>set result. mtype m \<noteq> Remove)"
  have q: "q \<noteq> []" using h by (elim conjE)
  have hm: "hm = (HumanMessage q)\<lparr>mid := Some (env_uuid4 env (uuid_counter w))\<rparr>"
    using h by (elim conjE)
  have lim: "4 \<le> recursion_limit" using h by (elim conjE)
  have run: "fst (run_deep_agent env
              \<lparr>messages = [hm], query = Some q, research_complete = Some False\<rparr> ctx w)
         = Inr u" using h by (elim conjE)
  have u: "u_messages u = Some result" using h by (elim conjE)
  have nr: "\<forall>m\<in>set result. mtype m \<noteq> Remove" using h by (elim conjE)
  from run_deep_agent_result [OF run] u
  have run': "fst (run_deep_agent env
              \<lparr>messages = [hm], query = Some q, research_complete = Some False\<rparr> ctx w)
         = Inr \<lparr>u_messages = Some result, u_query = None, u_research_complete = Some True\<rparr>"
    using run by auto
  have "\<exists>merged n1. add_messages (env_uuid4 env) (Suc (uuid_counter w)) [hm] result
                         = (Inr merged, n1)"
    by (rule add_messages_no_remove_Inr [OF nr])
  then obtain merged n1 where
    merge: "add_messages (env_uuid4 env) (Suc (uuid_counter w)) [hm] result = (Inr merged, n1)"
    by (elim exE) (rule that)
  from invoke_build_graph [OF q lim hm run' merge, of config]
  show "(\<exists>final w'. invoke (build_graph config) env ctx recursion_limit
           \<lparr>u_messages = Some [], u_query = Some q, u_research_complete = None\<rparr> w = (Inr final, w'))"
    by (intro exI)
  qed
  have d: "q \<noteq> [] \<and> recursion_limit < 4
      \<longrightarrow> (\<exists>e. fst (invoke (build_graph config) env ctx recursion_limit
           \<lparr>u_messages = Some [], u_query = Some q, u_research_complete = None\<rparr> w) = Inl e)"
  proof
  assume h: "q \<noteq> [] \<and> recursion_limit < 4"
  then have q: "q \<noteq> []" and lim: "recursion_limit < 4" by simp_all
  show "(\<exists>e. fst (invoke (build_graph config) env ctx recursion_limit
           \<lparr>u_messages = Some [], u_query = Some q, u_research_complete = None\<rparr> w) = Inl e)"
    by (rule invoke_build_graph_small_limit [OF q lim])
  qed
  show ?thesis by (intro conjI a c d)
qed

theorem deep_graph_end_to_end_witness:
  "fst (invoke (build_graph Map.empty) (example_env replying_agent) default_Context 4
          \<lparr>u_messages = Some [], u_query = Some ''What is LangGraph?'',
            u_research_complete = None\<rparr> example_world)
   = Inr \<lparr>messages = [\<lparr>mtype = Human, content = ''What is LangGraph?'', mid = Some ''uuid''\<rparr>, example_reply],
          query = Some ''What is LangGraph?'', research_complete = Some True\<rparr>
   \<and> stages_entered
       (trace (snd (invoke (build_graph Map.empty) (example_env replying_agent)
                      default_Context 4
                      \<lparr>u_messages = Some [], u_query = Some ''What is LangGraph?'',
            u_research_complete = None\<rparr> example_world)))
     = [''prepare_research'', ''run_deep_agent'', ''finalize_research'']
   \<and> fst (invoke (build_graph Map.empty) (example_env replying_agent) default_Context 3
          \<lparr>u_messages = Some [], u_query = Some ''What is LangGraph?'',
            u_research_complete = None\<rparr> example_world)
     = Inl GraphRecursionError"
  using deep_graph_end_to_end
          [where q = "''What is LangGraph?''"
             and hm = "\<lparr>mtype = Human, content = ''What is LangGraph?'', mid = Some ''uuid''\<rparr>"
             and env = "example_env replying_agent" and w = example_world
             and ctx = default_Context and config = Map.empty and recursion_limit = 4
             and final = "\<lparr>messages = [\<lparr>mtype = Human, content = ''What is LangGraph?'', mid = Some ''uuid''\<rparr>, example_reply],
                  query = Some ''What is LangGraph?'', research_complete = Some True\<rparr>"
             and w' = "\<lparr>trace = [StageEntered ''prepare_research'', StageEntered ''run_deep_agent'']
                @ new_events (run_deep_agent (example_env replying_agent)
                    \<lparr>messages = [\<lparr>mtype = Human, content = ''What is LangGraph?'', mid = Some ''uuid''\<rparr>],
                     query = Some ''What is LangGraph?'', research_complete = Some False\<rparr>
                    default_Context) example_world
                @ [StageEntered ''finalize_research''],
                uuid_counter = 1\<rparr>"
             and u = "\<lparr>u_messages = Some [\<lparr>mtype = Human, content = ''What is LangGraph?'', mid = Some ''uuid''\<rparr>, example_reply],
                  u_query = None, u_research_complete = Some True\<rparr>"
             and result = "[\<lparr>mtype = Human, content = ''What is LangGraph?'', mid = Some ''uuid''\<rparr>, example_reply]"]
        deep_graph_end_to_end
          [where q = "''What is LangGraph?''"
             and hm = "\<lparr>mtype = Human, content = ''What is LangGraph?'', mid = Some ''uuid''\<rparr>"
             and env = "example_env replying_agent" and w = example_world
             and ctx = default_Context and config = Map.empty and recursion_limit = 3
             and final = "\<lparr>messages = [], query = None, research_complete = None\<rparr>"
             and w' = example_world
             and u = "\<lparr>u_messages = None, u_query = None, u_research_complete = None\<rparr>"
             and result = "[]"]
  by (simp add: replying_agent_invoke replying_agent_invoke_limit_3 replying_agent_stage
        env_uuid4_example_env example_world_fields HumanMessage_def example_reply_def
        stages_entered_append run_deep_agent_world inj_example_uuid4)

section \<open>Finding or creating an assistant\<close>

text \<open>
  C7 holds of what the docstring promises and fails on the code. The lookup is
  \<open>search(metadata={"name": name})\<close>, but the creation passes the name as \<open>name\<close> and no
  metadata, so an assistant created here is never found by the next lookup: two calls
  with the same name, on a service that starts empty, create two assistants.
\<close>

theorem get_or_create_assistant_twice:
  "(case get_or_create_assistant example_uuid4 ''Creative Assistant'' ''deep'' None
           (Some creative_context) example_client of
      (first, c1) \<Rightarrow>
        (case get_or_create_assistant example_uuid4 ''Creative Assistant'' ''deep'' None
                (Some creative_context) c1 of
           (second, c2) \<Rightarrow>
             (map_sum id assistant_id first, map_sum id assistant_id second,
              map a_name (store c2), logged c2)))
   = (Inr ''uuid'', Inr ''uuid+'',
      [''Creative Assistant'', ''Creative Assistant''],
      [Creating_new_assistant ''Creative Assistant'',
       Creating_new_assistant ''Creative Assistant''])"
  by (simp add: get_or_create_assistant_def assistants_search_def assistants_create_def
        logger_info_def example_client_def example_uuid4_def Let_def)

end
